theory Spec2Isabelle
  imports Main "HOL-Library.AList" "HOL-Library.Multiset"
begin

section \<open>ShuffleFeatures: feature selection by performance drift\<close>

text \<open>
  A shallow embedding of \<^verbatim>\<open>feature_engine/selection/shuffle_features.py\<close>.
  The class \<^verbatim>\<open>ShuffleFeatures\<close> has a constructor and the two methods \<^verbatim>\<open>fit\<close> and
  \<^verbatim>\<open>transform\<close>. Exceptions are values of the type \<open>error\<close>; the object \<^verbatim>\<open>self\<close>, the
  dataframes and the state of the random generator live in an explicit program state.

  The calls into scikit-learn and the sampler of pandas are parameters. They may raise;
  they are taken to leave their arguments as they are, and to depend on nothing but their
  arguments and the state of the global random generator, which \<^verbatim>\<open>sample\<close> and an
  estimator without a seed of its own both draw from. Performance values are of any type
  with the operations the code uses on them (the constant 1, subtraction, comparison), so
  that nothing rests on floating-point values behaving like real numbers.
\<close>

subsection \<open>Python values, errors\<close>

text \<open>The values a caller can pass for the flags \<^verbatim>\<open>regression\<close> and \<^verbatim>\<open>cv\<close>.\<close>

datatype pyvalue = PyBool bool | PyInt int | PyStr string | PyNone

text \<open>\<^verbatim>\<open>isinstance(v, bool)\<close>: an integer is not a \<^verbatim>\<open>bool\<close> in Python.\<close>

fun isinstance_bool :: "pyvalue \<Rightarrow> bool" where
  "isinstance_bool (PyBool b) = True"
| "isinstance_bool v = False"

fun truth :: "pyvalue \<Rightarrow> bool" where
  "truth (PyBool b) = b"
| "truth (PyInt i) = (i \<noteq> 0)"
| "truth (PyStr s) = (s \<noteq> [])"
| "truth PyNone = False"

datatype error =
    ValueError string
  | TypeError
  | VariablesNotInDataframe "string list"
  | KeyError "string list"
  | NotFittedError
  | AttributeError string

subsection \<open>Dataframes\<close>

text \<open>
  A pandas dataframe: the row labels (\<^verbatim>\<open>X.index\<close>) and the columns in their order, each a
  name with one cell for every row. A cell is \<open>None\<close> where pandas holds \<^verbatim>\<open>NaN\<close>.
\<close>

datatype label = IntLabel int | StrLabel string

record 'v dataframe =
  index :: "label list"
  columns :: "(string \<times> 'v option list) list"

definition column_names :: "'v dataframe \<Rightarrow> string list" where
  "column_names df = map fst (columns df)"

text \<open>What a caller passes as \<^verbatim>\<open>X\<close>: a reference to a dataframe, or some other object.\<close>

datatype pyobject = DataFrameRef nat | NotADataFrame

subsection \<open>The collaborators: estimators, metrics, the sampler\<close>

text \<open>
  The library calls of the source are parameters of the model. Each may raise, so each
  returns a sum. A trained model answers \<^verbatim>\<open>predict(X)\<close> and \<^verbatim>\<open>predict_proba(X)[:, 1]\<close>;
  an estimator is its method \<^verbatim>\<open>fit(X, y)\<close>, which may draw from the random generator.
\<close>

record ('v, 'y) model =
  predict :: "'v dataframe \<Rightarrow> error + 'y"
  predict_proba_1 :: "'v dataframe \<Rightarrow> error + 'y"

type_synonym ('v, 'y, 'g) estimator =
  "'g \<Rightarrow> 'v dataframe \<Rightarrow> 'y \<Rightarrow> (error + ('v, 'y) model) \<times> 'g"

text \<open>
  \<^verbatim>\<open>RandomForestRegressor().fit\<close>, \<^verbatim>\<open>RandomForestClassifier().fit\<close>, the two metrics of
  \<^verbatim>\<open>sklearn.metrics\<close>, and the row positions that \<^verbatim>\<open>sample(frac=1)\<close> draws for a series of
  the given length.
\<close>

record ('v, 'y, 'p, 'g) libraries =
  RandomForestRegressor :: "('v, 'y, 'g) estimator"
  RandomForestClassifier :: "('v, 'y, 'g) estimator"
  mean_squared_error :: "'y \<Rightarrow> 'y \<Rightarrow> error + 'p"
  roc_auc_score :: "'y \<Rightarrow> 'y \<Rightarrow> error + 'p"
  sample :: "'g \<Rightarrow> nat \<Rightarrow> nat list \<times> 'g"

subsection \<open>The selector object and its constructor\<close>

text \<open>
  The attributes of \<^verbatim>\<open>self\<close>. \<^verbatim>\<open>features_performance_drifts_\<close> is \<open>None\<close> while the attribute
  does not exist (the field drops the final underscore, which a field name cannot have);
  as a dictionary it is an association list in insertion order.
\<close>

record ('v, 'y, 'p, 'g) selector =
  features_to_shuffle :: "string list option"
  estimator :: "('v, 'y, 'g) estimator option"
  scoring :: string
  threshold :: 'p
  regression :: bool
  cv :: bool
  features_performance_drifts :: "(string \<times> 'p) list option"

text \<open>The argument \<^verbatim>\<open>features_to_shuffle\<close>: \<^verbatim>\<open>None\<close>, one name, or a list of names.\<close>

datatype variables = NoVariables | OneVariable string | VariableList "string list"

text \<open>
  Modelled from the spec: \<^verbatim>\<open>_define_variables\<close> of \<^verbatim>\<open>feature_engine.variable_manipulation\<close>
  is not among the sources. The feature list is an optional list of column names, all
  columns when none is given; a single name stands for the list that holds it.
\<close>

fun define_variables :: "variables \<Rightarrow> string list option" where
  "define_variables NoVariables = None"
| "define_variables (OneVariable v) = Some [v]"
| "define_variables (VariableList vs) = Some vs"

text \<open>
  \<^verbatim>\<open>__init__(self, regression, cv=3, threshold=0, features_to_shuffle=None,
  estimator=None, scoring="neg_mean_squared_error")\<close>. An argument the caller leaves out
  is \<open>None\<close> here and takes its default.
\<close>

definition init ::
  "pyvalue \<Rightarrow> pyvalue option \<Rightarrow> 'p option \<Rightarrow> variables \<Rightarrow> ('v, 'y, 'g) estimator option \<Rightarrow>
   string option \<Rightarrow> error + ('v, 'y, 'p :: zero, 'g) selector" where
  "init regression_arg cv_arg threshold_arg features_arg estimator_arg scoring_arg =
    (let cv_v = (case cv_arg of None \<Rightarrow> PyInt 3 | Some c \<Rightarrow> c);
         threshold_v = (case threshold_arg of None \<Rightarrow> 0 | Some t \<Rightarrow> t);
         scoring_v = (case scoring_arg of None \<Rightarrow> ''neg_mean_squared_error'' | Some s \<Rightarrow> s)
     in if \<not> isinstance_bool cv_v then Inl (ValueError ''cv can only take True or False'')
        else if \<not> isinstance_bool regression_arg
          then Inl (ValueError ''regression can only take True or False'')
        else Inr \<lparr> features_to_shuffle = define_variables features_arg,
                   estimator = estimator_arg,
                   scoring = scoring_v,
                   threshold = threshold_v,
                   regression = truth regression_arg,
                   cv = truth cv_v,
                   features_performance_drifts = None \<rparr>)"

subsection \<open>The program state\<close>

text \<open>
  The heap holds the dataframes by address; addresses from \<open>next_addr\<close> on are free.
  \<open>self\<close> is the selector object, \<open>rng\<close> the state of the global random generator that
  \<^verbatim>\<open>sample\<close> and the default estimators draw from.
\<close>

record ('v, 'y, 'p, 'g) state =
  heap :: "nat \<Rightarrow> 'v dataframe"
  next_addr :: nat
  self :: "('v, 'y, 'p, 'g) selector"
  rng :: 'g

text \<open>A new dataframe object (\<^verbatim>\<open>X.copy()\<close>, the result of \<^verbatim>\<open>X.drop\<close>) takes a free address.\<close>

definition alloc ::
  "'v dataframe \<Rightarrow> ('v, 'y, 'p, 'g) state \<Rightarrow> nat \<times> ('v, 'y, 'p, 'g) state" where
  "alloc df \<sigma> =
     (next_addr \<sigma>, \<sigma>\<lparr>heap := (heap \<sigma>)(next_addr \<sigma> := df), next_addr := Suc (next_addr \<sigma>)\<rparr>)"

subsection \<open>The helpers from the other modules of the package\<close>

text \<open>
  Modelled from the spec: \<^verbatim>\<open>_is_dataframe\<close> of \<^verbatim>\<open>feature_engine.dataframe_checks\<close> is not
  among the sources. It validates that \<^verbatim>\<open>X\<close> is tabular and fails with a type error
  otherwise; what it returns is a validated copy of the dataframe.
\<close>

definition is_dataframe ::
  "pyobject \<Rightarrow> ('v, 'y, 'p, 'g) state \<Rightarrow> (error + nat) \<times> ('v, 'y, 'p, 'g) state" where
  "is_dataframe X \<sigma> =
     (case X of
        NotADataFrame \<Rightarrow> (Inl TypeError, \<sigma>)
      | DataFrameRef a \<Rightarrow> (let (b, \<sigma>') = alloc (heap \<sigma> a) \<sigma> in (Inr b, \<sigma>')))"

text \<open>
  Modelled from the spec: \<^verbatim>\<open>_find_all_variables\<close> of
  \<^verbatim>\<open>feature_engine.variable_manipulation\<close> is not among the sources. It resolves the
  feature list against the columns of \<^verbatim>\<open>X\<close>: all columns when no list was given at
  construction, and a failure if any named feature is absent.
\<close>

definition find_all_variables :: "'v dataframe \<Rightarrow> string list option \<Rightarrow> error + string list" where
  "find_all_variables X variables =
     (case variables of
        None \<Rightarrow> Inr (column_names X)
      | Some vs \<Rightarrow>
          (let absent = filter (\<lambda>v. v \<notin> set (column_names X)) vs
           in if absent = [] then Inr vs else Inl (VariablesNotInDataframe absent)))"

subsection \<open>The pandas operations\<close>

text \<open>
  Assigning a series to a column aligns it on the row labels: the row labelled \<open>l\<close> takes
  the value the series holds at label \<open>l\<close>, and \<^verbatim>\<open>NaN\<close> where the series has no such label.
  The series assigned in \<^verbatim>\<open>fit\<close> comes from \<^verbatim>\<open>reset_index(drop=True)\<close>, so its labels are
  the integers from 0 up to its length. The cells that survive are kept as they are: the
  conversion of an integer column to floating point, which pandas makes when a \<^verbatim>\<open>NaN\<close>
  enters it, is not modelled.
\<close>

definition reindex :: "'v option list \<Rightarrow> label list \<Rightarrow> 'v option list" where
  "reindex vs labels =
     map (\<lambda>l. case l of
                 IntLabel k \<Rightarrow> if 0 \<le> k \<and> k < int (length vs) then vs ! nat k else None
               | StrLabel s \<Rightarrow> None) labels"

text \<open>
  \<^verbatim>\<open>X_shuffled[feature] = X_shuffled[feature].sample(frac=1).reset_index(drop=True)\<close>
  on the frame \<open>df\<close>, when \<^verbatim>\<open>sample\<close> draws the row positions \<open>ps\<close>.
\<close>

definition shuffled :: "nat list \<Rightarrow> string \<Rightarrow> 'v dataframe \<Rightarrow> 'v dataframe" where
  "shuffled ps feature df =
     df\<lparr>columns :=
          map (\<lambda>(name, vs). if name = feature
                              then (name, reindex (map (\<lambda>i. vs ! i) ps) (index df))
                              else (name, vs)) (columns df)\<rparr>"

definition shuffle_feature ::
  "('v, 'y, 'p, 'g) libraries \<Rightarrow> nat \<Rightarrow> string \<Rightarrow> ('v, 'y, 'p, 'g) state \<Rightarrow>
   error option \<times> ('v, 'y, 'p, 'g) state" where
  "shuffle_feature L a feature \<sigma> =
     (let df = heap \<sigma> a
      in if feature \<notin> set (column_names df) then (Some (KeyError [feature]), \<sigma>)
         else (let (ps, g) = sample L (rng \<sigma>) (length (index df))
               in (None, \<sigma>\<lparr>heap := (heap \<sigma>)(a := shuffled ps feature df), rng := g\<rparr>)))"

text \<open>\<^verbatim>\<open>X.drop(columns=columns_to_drop)\<close>: a new frame; a label that is not a column raises.\<close>

definition drop_columns ::
  "string list \<Rightarrow> nat \<Rightarrow> ('v, 'y, 'p, 'g) state \<Rightarrow> (error + nat) \<times> ('v, 'y, 'p, 'g) state" where
  "drop_columns columns_to_drop a \<sigma> =
     (let df = heap \<sigma> a;
          absent = filter (\<lambda>c. c \<notin> set (column_names df)) columns_to_drop
      in if absent \<noteq> [] then (Inl (KeyError absent), \<sigma>)
         else (let (b, \<sigma>') =
                     alloc (df\<lparr>columns := filter (\<lambda>(name, vs). name \<notin> set columns_to_drop)
                                              (columns df)\<rparr>) \<sigma>
               in (Inr b, \<sigma>')))"

subsection \<open>fit\<close>

text \<open>
  Lines 119 to 139: the model and its baseline performance. With an estimator of the
  caller the performance is the constant 1; the prediction is still computed.
\<close>

definition train ::
  "('v, 'y, 'p :: {one, minus}, 'g) libraries \<Rightarrow> ('v, 'y, 'p, 'g) selector \<Rightarrow> 'v dataframe \<Rightarrow>
   'y \<Rightarrow> 'g \<Rightarrow> (error + (('v, 'y) model \<times> 'p)) \<times> 'g" where
  "train L s X y g =
     (case estimator s of
        Some est \<Rightarrow>
          (case est g X y of
             (Inl e, g') \<Rightarrow> (Inl e, g')
           | (Inr m, g') \<Rightarrow>
               (case predict m X of
                  Inl e \<Rightarrow> (Inl e, g')
                | Inr y_pred \<Rightarrow> (Inr (m, 1), g')))
      | None \<Rightarrow>
          if regression s then
            (case RandomForestRegressor L g X y of
               (Inl e, g') \<Rightarrow> (Inl e, g')
             | (Inr m, g') \<Rightarrow>
                 (case predict m X of
                    Inl e \<Rightarrow> (Inl e, g')
                  | Inr y_pred \<Rightarrow>
                      (case mean_squared_error L y y_pred of
                         Inl e \<Rightarrow> (Inl e, g')
                       | Inr p \<Rightarrow> (Inr (m, p), g'))))
          else
            (case RandomForestClassifier L g X y of
               (Inl e, g') \<Rightarrow> (Inl e, g')
             | (Inr m, g') \<Rightarrow>
                 (case predict_proba_1 m X of
                    Inl e \<Rightarrow> (Inl e, g')
                  | Inr y_pred \<Rightarrow>
                      (case roc_auc_score L y y_pred of
                         Inl e \<Rightarrow> (Inl e, g')
                       | Inr p \<Rightarrow> (Inr (m, p), g')))))"

text \<open>Lines 160 to 170: the performance of the trained model on a shuffled frame.\<close>

definition shuffled_model_performance ::
  "('v, 'y, 'p, 'g) libraries \<Rightarrow> bool \<Rightarrow> ('v, 'y) model \<Rightarrow> 'y \<Rightarrow> 'v dataframe \<Rightarrow> error + 'p" where
  "shuffled_model_performance L regr m y X_shuffled =
     (if regr then
        (case predict m X_shuffled of
           Inl e \<Rightarrow> Inl e
         | Inr shuffled_y_pred \<Rightarrow> mean_squared_error L y shuffled_y_pred)
      else
        (case predict_proba_1 m X_shuffled of
           Inl e \<Rightarrow> Inl e
         | Inr shuffled_y_pred \<Rightarrow> roc_auc_score L y shuffled_y_pred))"

text \<open>\<^verbatim>\<open>self.features_performance_drifts_[feature] = drift\<close>\<close>

definition store_drift ::
  "string \<Rightarrow> 'p \<Rightarrow> ('v, 'y, 'p, 'g) selector \<Rightarrow> ('v, 'y, 'p, 'g) selector" where
  "store_drift feature drift s =
     s\<lparr>features_performance_drifts :=
         map_option (AList.update feature drift) (features_performance_drifts s)\<rparr>"

text \<open>
  Lines 152 to 179: the body of the loop for one feature. It copies \<^verbatim>\<open>X\<close>, shuffles the
  feature in the copy, scores the model on the copy and stores the drift.
\<close>

definition fit_iteration ::
  "('v, 'y, 'p :: {one, minus}, 'g) libraries \<Rightarrow> ('v, 'y) model \<Rightarrow> 'p \<Rightarrow> nat \<Rightarrow> 'y \<Rightarrow>
   string \<Rightarrow> ('v, 'y, 'p, 'g) state \<Rightarrow> error option \<times> ('v, 'y, 'p, 'g) state" where
  "fit_iteration L m model_performance X y feature \<sigma> =
     (let (X_shuffled, \<sigma>1) = alloc (heap \<sigma> X) \<sigma>
      in case shuffle_feature L X_shuffled feature \<sigma>1 of
           (Some e, \<sigma>2) \<Rightarrow> (Some e, \<sigma>2)
         | (None, \<sigma>2) \<Rightarrow>
             (case shuffled_model_performance L (regression (self \<sigma>2)) m y
                     (heap \<sigma>2 X_shuffled) of
                Inl e \<Rightarrow> (Some e, \<sigma>2)
              | Inr shuffled_performance \<Rightarrow>
                  (let drift = model_performance - shuffled_performance
                   in (None, \<sigma>2\<lparr>self := store_drift feature drift (self \<sigma>2)\<rparr>))))"

text \<open>
  Line 149: the loop over the features. An exception leaves the loop with the state as
  it is at that point.
\<close>

fun fit_loop ::
  "('v, 'y, 'p :: {one, minus}, 'g) libraries \<Rightarrow> ('v, 'y) model \<Rightarrow> 'p \<Rightarrow> nat \<Rightarrow> 'y \<Rightarrow>
   string list \<Rightarrow> ('v, 'y, 'p, 'g) state \<Rightarrow> error option \<times> ('v, 'y, 'p, 'g) state" where
  "fit_loop L m model_performance X y [] \<sigma> = (None, \<sigma>)"
| "fit_loop L m model_performance X y (feature # features) \<sigma> =
     (case fit_iteration L m model_performance X y feature \<sigma> of
        (Some e, \<sigma>') \<Rightarrow> (Some e, \<sigma>')
      | (None, \<sigma>') \<Rightarrow> fit_loop L m model_performance X y features \<sigma>')"

text \<open>
  Lines 110 to 139 of \<^verbatim>\<open>fit\<close>: the validated copy of \<^verbatim>\<open>X\<close>, the resolved features (stored
  in \<^verbatim>\<open>self.features_to_shuffle\<close>), the trained model and its performance.
\<close>

definition fit_setup ::
  "('v, 'y, 'p :: {one, minus}, 'g) libraries \<Rightarrow> pyobject \<Rightarrow> 'y \<Rightarrow> ('v, 'y, 'p, 'g) state \<Rightarrow>
   (error + (nat \<times> string list \<times> ('v, 'y) model \<times> 'p)) \<times> ('v, 'y, 'p, 'g) state" where
  "fit_setup L X y \<sigma> =
     (case is_dataframe X \<sigma> of
        (Inl e, \<sigma>1) \<Rightarrow> (Inl e, \<sigma>1)
      | (Inr X', \<sigma>1) \<Rightarrow>
          (case find_all_variables (heap \<sigma>1 X') (features_to_shuffle (self \<sigma>1)) of
             Inl e \<Rightarrow> (Inl e, \<sigma>1)
           | Inr vs \<Rightarrow>
               (let \<sigma>2 = \<sigma>1\<lparr>self := (self \<sigma>1)\<lparr>features_to_shuffle := Some vs\<rparr>\<rparr>
                in case train L (self \<sigma>2) (heap \<sigma>2 X') y (rng \<sigma>2) of
                     (Inl e, g) \<Rightarrow> (Inl e, \<sigma>2\<lparr>rng := g\<rparr>)
                   | (Inr (m, model_performance), g) \<Rightarrow>
                       (Inr (X', vs, m, model_performance), \<sigma>2\<lparr>rng := g\<rparr>))))"

text \<open>
  \<^verbatim>\<open>fit(self, X, y)\<close>: the setup, the empty dictionary of line 145, the loop. The result is
  the exception raised, if any, and the state the call leaves behind.
\<close>

definition fit ::
  "('v, 'y, 'p :: {one, minus}, 'g) libraries \<Rightarrow> pyobject \<Rightarrow> 'y \<Rightarrow> ('v, 'y, 'p, 'g) state \<Rightarrow>
   error option \<times> ('v, 'y, 'p, 'g) state" where
  "fit L X y \<sigma> =
     (case fit_setup L X y \<sigma> of
        (Inl e, \<sigma>1) \<Rightarrow> (Some e, \<sigma>1)
      | (Inr (X', vs, m, model_performance), \<sigma>1) \<Rightarrow>
          fit_loop L m model_performance X' y vs
            (\<sigma>1\<lparr>self := (self \<sigma>1)\<lparr>features_performance_drifts := Some []\<rparr>\<rparr>))"

subsection \<open>transform\<close>

text \<open>
  \<^verbatim>\<open>check_is_fitted(self)\<close> passes when the object has an attribute whose name ends in an
  underscore; \<^verbatim>\<open>features_performance_drifts_\<close> is the only such attribute of the class.
\<close>

definition transform ::
  "pyobject \<Rightarrow> ('v, 'y, 'p :: ord, 'g) state \<Rightarrow> (error + nat) \<times> ('v, 'y, 'p, 'g) state" where
  "transform X \<sigma> =
     (case features_performance_drifts (self \<sigma>) of
        None \<Rightarrow> (Inl NotFittedError, \<sigma>)
      | Some drifts \<Rightarrow>
          (case is_dataframe X \<sigma> of
             (Inl e, \<sigma>1) \<Rightarrow> (Inl e, \<sigma>1)
           | (Inr X', \<sigma>1) \<Rightarrow>
               (let columns_to_drop =
                      (if regression (self \<sigma>1)
                       then [feature. (feature, drift) \<leftarrow> drifts, drift \<ge> threshold (self \<sigma>1)]
                       else [feature. (feature, drift) \<leftarrow> drifts, drift \<le> threshold (self \<sigma>1)])
                in drop_columns columns_to_drop X' \<sigma>1)))"

subsection \<open>Notions used in the statements\<close>

text \<open>
  Two selectors that differ in \<^verbatim>\<open>scoring\<close> and \<^verbatim>\<open>cv\<close> only: the state with these two
  attributes replaced.
\<close>

definition with_scoring_cv ::
  "string \<Rightarrow> bool \<Rightarrow> ('v, 'y, 'p, 'g) state \<Rightarrow> ('v, 'y, 'p, 'g) state" where
  "with_scoring_cv sc c \<sigma> = \<sigma>\<lparr>self := (self \<sigma>)\<lparr>scoring := sc, cv := c\<rparr>\<rparr>"

text \<open>
  Collaborators that return normally: a trained model that predicts on every frame, an
  estimator that always trains such a model, metrics that always give a value.
\<close>

definition model_returns :: "('v, 'y) model \<Rightarrow> bool" where
  "model_returns m \<longleftrightarrow> (\<forall>df. \<not> isl (predict m df) \<and> \<not> isl (predict_proba_1 m df))"

definition estimator_returns :: "('v, 'y, 'g) estimator \<Rightarrow> bool" where
  "estimator_returns est \<longleftrightarrow>
     (\<forall>g X y. case fst (est g X y) of Inl e \<Rightarrow> False | Inr m \<Rightarrow> model_returns m)"

definition collaborators_return ::
  "('v, 'y, 'p, 'g) libraries \<Rightarrow> ('v, 'y, 'g) estimator option \<Rightarrow> bool" where
  "collaborators_return L est \<longleftrightarrow>
     estimator_returns (RandomForestRegressor L) \<and>
     estimator_returns (RandomForestClassifier L) \<and>
     (\<forall>y y_pred. \<not> isl (mean_squared_error L y y_pred)) \<and>
     (\<forall>y y_pred. \<not> isl (roc_auc_score L y y_pred)) \<and>
     (case est of None \<Rightarrow> True | Some e \<Rightarrow> estimator_returns e)"


text \<open>The default row labels of pandas, \<^verbatim>\<open>RangeIndex(n)\<close>.\<close>

definition RangeIndex :: "nat \<Rightarrow> label list" where
  "RangeIndex n = map (\<lambda>i. IntLabel (int i)) [0..<n]"

subsection \<open>A small instance\<close>

text \<open>
  Concrete collaborators on which the definitions can be run: cells and targets are
  integers, a trained model predicts the first column, with 0 for a missing cell; the
  metrics are sums over the rows; \<^verbatim>\<open>sample\<close> reverses the rows and advances the
  generator. The strict model is one a caller may supply: as scikit-learn does, it
  rejects a frame with a missing cell.
\<close>

definition first_column_model :: "(int, int list) model" where
  "first_column_model =
     (let p = (\<lambda>df. case columns df of
                        [] \<Rightarrow> Inr []
                      | (name, vs) # cs \<Rightarrow> Inr (map (\<lambda>c. case c of None \<Rightarrow> 0 | Some v \<Rightarrow> v) vs))
      in \<lparr> predict = p, predict_proba_1 = p \<rparr>)"

definition strict_model :: "(int, int list) model" where
  "strict_model =
     (let p = (\<lambda>df. case columns df of
                        [] \<Rightarrow> Inr []
                      | (name, vs) # cs \<Rightarrow>
                          if None \<in> set vs then Inl (ValueError ''Input contains NaN'')
                          else Inr (map the vs))
      in \<lparr> predict = p, predict_proba_1 = p \<rparr>)"

definition strict_estimator :: "(int, int list, nat) estimator" where
  "strict_estimator g X y = (Inr strict_model, Suc g)"

definition first_column_estimator :: "(int, int list, nat) estimator" where
  "first_column_estimator g X y = (Inr first_column_model, Suc g)"

definition squared_error :: "int list \<Rightarrow> int list \<Rightarrow> error + int" where
  "squared_error y y_pred = Inr (sum_list (map (\<lambda>(a, b). (a - b) * (a - b)) (zip y y_pred)))"

definition small_libraries :: "(int, int list, int, nat) libraries" where
  "small_libraries =
     \<lparr> RandomForestRegressor = first_column_estimator,
       RandomForestClassifier = first_column_estimator,
       mean_squared_error = squared_error,
       roc_auc_score = squared_error,
       sample = (\<lambda>g n. (rev [0..<n], Suc g)) \<rparr>"

text \<open>Two frames with the columns \<open>a\<close> and \<open>b\<close>: row labels 0, 1 and row labels 1, 2.\<close>

definition frame01 :: "int dataframe" where
  "frame01 = \<lparr> index = [IntLabel 0, IntLabel 1],
               columns = [(''a'', [Some 10, Some 20]), (''b'', [Some 5, Some 7])] \<rparr>"

definition frame12 :: "int dataframe" where
  "frame12 = \<lparr> index = [IntLabel 1, IntLabel 2],
               columns = [(''a'', [Some 10, Some 20]), (''b'', [Some 5, Some 7])] \<rparr>"

text \<open>A state with one frame at address 0 and the selector \<open>s\<close>.\<close>

definition state_with ::
  "int dataframe \<Rightarrow> (int, int list, int, nat) selector \<Rightarrow> (int, int list, int, nat) state" where
  "state_with df s = \<lparr> heap = (\<lambda>a. df), next_addr = 1, self = s, rng = 0 \<rparr>"

definition small_selector ::
  "bool \<Rightarrow> int \<Rightarrow> string list option \<Rightarrow> (int, int list, nat) estimator option \<Rightarrow>
   (int, int list, int, nat) selector" where
  "small_selector regr thr vs est =
     \<lparr> features_to_shuffle = vs, estimator = est, scoring = ''neg_mean_squared_error'',
       threshold = thr, regression = regr, cv = True, features_performance_drifts = None \<rparr>"

text \<open>A regression selector with the defaults, before and after \<^verbatim>\<open>fit\<close> on \<open>frame01\<close>.\<close>

definition small_state :: "(int, int list, int, nat) state" where
  "small_state = state_with frame01 (small_selector True 0 None None)"

definition small_fitted :: "(int, int list, int, nat) state" where
  "small_fitted = snd (fit small_libraries (DataFrameRef 0) [10, 20] small_state)"

text \<open>
  A regression selector that holds the strict estimator, for the frame with the row
  labels 1 and 2, before and after \<^verbatim>\<open>fit\<close>; and the same selector for the frame with the
  row labels 0 and 1.
\<close>

definition strict_state :: "(int, int list, int, nat) state" where
  "strict_state = state_with frame12 (small_selector True 0 None (Some strict_estimator))"

definition strict_state01 :: "(int, int list, int, nat) state" where
  "strict_state01 = state_with frame01 (small_selector True 0 None (Some strict_estimator))"

definition strict_after_fit :: "(int, int list, int, nat) state" where
  "strict_after_fit = snd (fit small_libraries (DataFrameRef 0) [10, 20] strict_state)"

text \<open>
  An estimator of the caller whose model has \<^verbatim>\<open>predict\<close> but no \<^verbatim>\<open>predict_proba\<close>, in a
  classification selector, before and after \<^verbatim>\<open>fit\<close> on \<open>frame01\<close>.
\<close>

definition regressor_model :: "(int, int list) model" where
  "regressor_model =
     \<lparr> predict = predict first_column_model,
       predict_proba_1 = (\<lambda>df. Inl (AttributeError ''predict_proba'')) \<rparr>"

definition regressor_estimator :: "(int, int list, nat) estimator" where
  "regressor_estimator g X y = (Inr regressor_model, Suc g)"

definition classifier_state :: "(int, int list, int, nat) state" where
  "classifier_state = state_with frame01 (small_selector False 0 None (Some regressor_estimator))"

definition classifier_after_fit :: "(int, int list, int, nat) state" where
  "classifier_after_fit = snd (fit small_libraries (DataFrameRef 0) [10, 20] classifier_state)"





section \<open>Construction\<close>

lemma isinstance_bool_iff: "isinstance_bool v \<longleftrightarrow> (\<exists>b. v = PyBool b)"
  by (cases v) simp_all

section \<open>How the steps change the state\<close>

lemma alloc_eq:
  "alloc df \<sigma> =
     (next_addr \<sigma>, \<sigma>\<lparr>heap := (heap \<sigma>)(next_addr \<sigma> := df), next_addr := Suc (next_addr \<sigma>)\<rparr>)"
  by (simp add: alloc_def)

lemma store_drift_simps [simp]:
  "features_to_shuffle (store_drift f d s) = features_to_shuffle s"
  "estimator (store_drift f d s) = estimator s"
  "scoring (store_drift f d s) = scoring s"
  "threshold (store_drift f d s) = threshold s"
  "regression (store_drift f d s) = regression s"
  "cv (store_drift f d s) = cv s"
  "features_performance_drifts (store_drift f d s) =
     map_option (AList.update f d) (features_performance_drifts s)"
  by (simp_all add: store_drift_def)

lemma fit_iteration_None:
  assumes "fit_iteration L m p X y f \<sigma> = (None, \<sigma>')"
  shows "\<exists>sp. f \<in> set (column_names (heap \<sigma> X)) \<and>
           shuffled_model_performance L (regression (self \<sigma>)) m y
             (shuffled (fst (sample L (rng \<sigma>) (length (index (heap \<sigma> X))))) f (heap \<sigma> X)) = Inr sp \<and>
           \<sigma>' = \<sigma>\<lparr>heap := (heap \<sigma>)(next_addr \<sigma> :=
                         shuffled (fst (sample L (rng \<sigma>) (length (index (heap \<sigma> X))))) f (heap \<sigma> X)),
                    next_addr := Suc (next_addr \<sigma>),
                    rng := snd (sample L (rng \<sigma>) (length (index (heap \<sigma> X)))),
                    self := store_drift f (p - sp) (self \<sigma>)\<rparr>"
  using assms
  by (auto simp: fit_iteration_def alloc_eq shuffle_feature_def Let_def split_beta
           split: if_splits sum.splits)

lemma fit_iteration_Some:
  assumes "fit_iteration L m p X y f \<sigma> = (Some e, \<sigma>')"
  shows "self \<sigma>' = self \<sigma> \<and> next_addr \<sigma>' = Suc (next_addr \<sigma>) \<and>
         (\<forall>a. a \<noteq> next_addr \<sigma> \<longrightarrow> heap \<sigma>' a = heap \<sigma> a)"
  using assms
  by (auto simp: fit_iteration_def alloc_eq shuffle_feature_def Let_def split_beta
           split: if_splits sum.splits)

lemma fit_iteration_frame:
  assumes "fit_iteration L m p X y f \<sigma> = (r, \<sigma>')"
  shows "next_addr \<sigma>' = Suc (next_addr \<sigma>) \<and>
         (\<forall>a. a \<noteq> next_addr \<sigma> \<longrightarrow> heap \<sigma>' a = heap \<sigma> a) \<and>
         (\<exists>d. self \<sigma>' = (self \<sigma>)\<lparr>features_performance_drifts := d\<rparr> \<and>
              (features_performance_drifts (self \<sigma>) \<noteq> None \<longrightarrow> d \<noteq> None))"
proof (cases r)
  case None
  from fit_iteration_None [OF assms [unfolded None]] obtain sp where
    "\<sigma>' = \<sigma>\<lparr>heap := (heap \<sigma>)(next_addr \<sigma> :=
                         shuffled (fst (sample L (rng \<sigma>) (length (index (heap \<sigma> X))))) f (heap \<sigma> X)),
                    next_addr := Suc (next_addr \<sigma>),
                    rng := snd (sample L (rng \<sigma>) (length (index (heap \<sigma> X)))),
                    self := store_drift f (p - sp) (self \<sigma>)\<rparr>"
    by blast
  then show ?thesis
    by (auto simp: store_drift_def)
next
  case (Some e)
  from fit_iteration_Some [OF assms [unfolded Some]] show ?thesis
    by (auto intro!: exI [of _ "features_performance_drifts (self \<sigma>)"])
qed

lemma fit_loop_frame:
  assumes "fit_loop L m p X y fs \<sigma> = (r, \<sigma>')"
  shows "next_addr \<sigma> \<le> next_addr \<sigma>' \<and>
         (\<forall>a < next_addr \<sigma>. heap \<sigma>' a = heap \<sigma> a) \<and>
         (\<exists>d. self \<sigma>' = (self \<sigma>)\<lparr>features_performance_drifts := d\<rparr> \<and>
              (features_performance_drifts (self \<sigma>) \<noteq> None \<longrightarrow> d \<noteq> None))"
  using assms
proof (induction fs arbitrary: \<sigma>)
  case Nil
  then show ?case
    by (auto intro!: exI [of _ "features_performance_drifts (self \<sigma>)"])
next
  case (Cons f fs)
  obtain r1 \<sigma>1 where it: "fit_iteration L m p X y f \<sigma> = (r1, \<sigma>1)"
    by (cases "fit_iteration L m p X y f \<sigma>")
  from fit_iteration_frame [OF it] obtain d1 where
    n1: "next_addr \<sigma>1 = Suc (next_addr \<sigma>)" and
    h1: "\<And>a. a \<noteq> next_addr \<sigma> \<Longrightarrow> heap \<sigma>1 a = heap \<sigma> a" and
    s1: "self \<sigma>1 = (self \<sigma>)\<lparr>features_performance_drifts := d1\<rparr>" and
    d1: "features_performance_drifts (self \<sigma>) \<noteq> None \<Longrightarrow> d1 \<noteq> None"
    by blast
  show ?case
  proof (cases r1)
    case (Some e)
    with Cons.prems it have "\<sigma>' = \<sigma>1" by simp
    with n1 h1 s1 d1 show ?thesis by auto
  next
    case None
    with Cons.prems it have "fit_loop L m p X y fs \<sigma>1 = (r, \<sigma>')" by simp
    from Cons.IH [OF this] obtain d where
      n2: "next_addr \<sigma>1 \<le> next_addr \<sigma>'" and
      h2: "\<And>a. a < next_addr \<sigma>1 \<Longrightarrow> heap \<sigma>' a = heap \<sigma>1 a" and
      s2: "self \<sigma>' = (self \<sigma>1)\<lparr>features_performance_drifts := d\<rparr>" and
      d2: "features_performance_drifts (self \<sigma>1) \<noteq> None \<Longrightarrow> d \<noteq> None"
      by blast
    have "next_addr \<sigma> \<le> next_addr \<sigma>'" using n1 n2 by simp
    moreover have "\<forall>a < next_addr \<sigma>. heap \<sigma>' a = heap \<sigma> a"
      using h1 h2 n1 by simp
    moreover have "self \<sigma>' = (self \<sigma>)\<lparr>features_performance_drifts := d\<rparr>"
      using s1 s2 by simp
    moreover have "features_performance_drifts (self \<sigma>) \<noteq> None \<longrightarrow> d \<noteq> None"
      using d1 d2 s1 by simp
    ultimately show ?thesis by blast
  qed
qed

lemma is_dataframe_cases:
  assumes "is_dataframe X \<sigma> = (r, \<sigma>')"
  shows "(X = NotADataFrame \<and> r = Inl TypeError \<and> \<sigma>' = \<sigma>) \<or>
         (\<exists>a. X = DataFrameRef a \<and> r = Inr (next_addr \<sigma>) \<and>
              \<sigma>' = \<sigma>\<lparr>heap := (heap \<sigma>)(next_addr \<sigma> := heap \<sigma> a),
                       next_addr := Suc (next_addr \<sigma>)\<rparr>)"
  using assms by (cases X) (auto simp: is_dataframe_def alloc_eq)

lemma fit_setup_Inr:
  assumes "fit_setup L X y \<sigma> = (Inr (X', vs, m, perf), \<sigma>1)"
  shows "\<exists>a. X = DataFrameRef a \<and> X' = next_addr \<sigma> \<and>
           find_all_variables (heap \<sigma> a) (features_to_shuffle (self \<sigma>)) = Inr vs \<and>
           train L ((self \<sigma>)\<lparr>features_to_shuffle := Some vs\<rparr>) (heap \<sigma> a) y (rng \<sigma>)
             = (Inr (m, perf), rng \<sigma>1) \<and>
           heap \<sigma>1 = (heap \<sigma>)(next_addr \<sigma> := heap \<sigma> a) \<and>
           next_addr \<sigma>1 = Suc (next_addr \<sigma>) \<and>
           self \<sigma>1 = (self \<sigma>)\<lparr>features_to_shuffle := Some vs\<rparr>"
proof (cases X)
  case NotADataFrame
  with assms show ?thesis by (simp add: fit_setup_def is_dataframe_def)
next
  case (DataFrameRef a)
  with assms show ?thesis
    by (auto simp: fit_setup_def is_dataframe_def alloc_eq Let_def
             split: sum.splits prod.splits)
qed

lemma fit_setup_Inl:
  assumes "fit_setup L X y \<sigma> = (Inl e, \<sigma>1)"
  shows "features_performance_drifts (self \<sigma>1) = features_performance_drifts (self \<sigma>) \<and>
         next_addr \<sigma> \<le> next_addr \<sigma>1 \<and> (\<forall>a < next_addr \<sigma>. heap \<sigma>1 a = heap \<sigma> a)"
proof (cases X)
  case NotADataFrame
  with assms show ?thesis by (simp add: fit_setup_def is_dataframe_def)
next
  case (DataFrameRef a)
  with assms show ?thesis
    by (auto simp: fit_setup_def is_dataframe_def alloc_eq Let_def
             split: sum.splits prod.splits)
qed

lemma fit_loop_keys:
  assumes "fit_loop L m p X y fs \<sigma> = (None, \<sigma>')"
    and "features_performance_drifts (self \<sigma>) = Some d"
  shows "\<exists>d'. features_performance_drifts (self \<sigma>') = Some d' \<and>
              fst ` set d' = fst ` set d \<union> set fs \<and>
              (distinct (map fst d) \<longrightarrow> distinct (map fst d'))"
  using assms
proof (induction fs arbitrary: \<sigma> d)
  case Nil
  then show ?case by simp
next
  case (Cons f fs)
  obtain r1 \<sigma>1 where it: "fit_iteration L m p X y f \<sigma> = (r1, \<sigma>1)"
    by (cases "fit_iteration L m p X y f \<sigma>")
  with Cons.prems(1) have r1: "r1 = None" and rest: "fit_loop L m p X y fs \<sigma>1 = (None, \<sigma>')"
    by (cases r1; simp)+
  from fit_iteration_None [OF it [unfolded r1]] obtain sp where
    "self \<sigma>1 = store_drift f (p - sp) (self \<sigma>)"
    by (elim exE conjE) simp
  with Cons.prems(2) have d1: "features_performance_drifts (self \<sigma>1) = Some (AList.update f (p - sp) d)"
    by simp
  from Cons.IH [OF rest d1] show ?case
    by (auto simp: AList.dom_update AList.distinct_update)
qed

lemma fit_loop_drifts:
  assumes "fit_loop L m p X y fs \<sigma> = (None, \<sigma>')"
    and "X < next_addr \<sigma>"
    and "features_performance_drifts (self \<sigma>) = Some d"
  shows "\<exists>d'. features_performance_drifts (self \<sigma>') = Some d' \<and>
           (\<forall>f. f \<notin> set fs \<longrightarrow> map_of d' f = map_of d f) \<and>
           (\<forall>f \<in> set fs. \<exists>g sp.
               shuffled_model_performance L (regression (self \<sigma>)) m y
                 (shuffled (fst (sample L g (length (index (heap \<sigma> X))))) f (heap \<sigma> X)) = Inr sp \<and>
               map_of d' f = Some (p - sp))"
  using assms
proof (induction fs arbitrary: \<sigma> d)
  case Nil
  then show ?case by simp
next
  case (Cons f fs)
  obtain r1 \<sigma>1 where it: "fit_iteration L m p X y f \<sigma> = (r1, \<sigma>1)"
    by (cases "fit_iteration L m p X y f \<sigma>")
  with Cons.prems(1) have r1: "r1 = None" and rest: "fit_loop L m p X y fs \<sigma>1 = (None, \<sigma>')"
    by (cases r1; simp)+
  let ?Xs = "shuffled (fst (sample L (rng \<sigma>) (length (index (heap \<sigma> X))))) f (heap \<sigma> X)"
  from fit_iteration_None [OF it [unfolded r1]] obtain sp where
    sp: "shuffled_model_performance L (regression (self \<sigma>)) m y ?Xs = Inr sp" and
    \<sigma>1: "\<sigma>1 = \<sigma>\<lparr>heap := (heap \<sigma>)(next_addr \<sigma> := ?Xs),
                    next_addr := Suc (next_addr \<sigma>),
                    rng := snd (sample L (rng \<sigma>) (length (index (heap \<sigma> X)))),
                    self := store_drift f (p - sp) (self \<sigma>)\<rparr>"
    by blast
  have X1: "X < next_addr \<sigma>1" and hX: "heap \<sigma>1 X = heap \<sigma> X"
    and reg: "regression (self \<sigma>1) = regression (self \<sigma>)"
    and d1: "features_performance_drifts (self \<sigma>1) = Some (AList.update f (p - sp) d)"
    using Cons.prems(2,3) by (simp_all add: \<sigma>1)
  from Cons.IH [OF rest X1 d1] obtain d' where
    d': "features_performance_drifts (self \<sigma>') = Some d'" and
    keep: "\<And>f'. f' \<notin> set fs \<Longrightarrow> map_of d' f' = map_of (AList.update f (p - sp) d) f'" and
    new: "\<And>f'. f' \<in> set fs \<Longrightarrow> \<exists>g sp'.
               shuffled_model_performance L (regression (self \<sigma>)) m y
                 (shuffled (fst (sample L g (length (index (heap \<sigma> X))))) f' (heap \<sigma> X)) = Inr sp' \<and>
               map_of d' f' = Some (p - sp')"
    unfolding hX reg by blast
  have "\<forall>f'. f' \<notin> set (f # fs) \<longrightarrow> map_of d' f' = map_of d f'"
    using keep by (simp add: AList.update_conv')
  moreover have "\<forall>f' \<in> set (f # fs). \<exists>g sp'.
               shuffled_model_performance L (regression (self \<sigma>)) m y
                 (shuffled (fst (sample L g (length (index (heap \<sigma> X))))) f' (heap \<sigma> X)) = Inr sp' \<and>
               map_of d' f' = Some (p - sp')"
  proof
    fix f' assume "f' \<in> set (f # fs)"
    show "\<exists>g sp'.
               shuffled_model_performance L (regression (self \<sigma>)) m y
                 (shuffled (fst (sample L g (length (index (heap \<sigma> X))))) f' (heap \<sigma> X)) = Inr sp' \<and>
               map_of d' f' = Some (p - sp')"
    proof (cases "f' \<in> set fs")
      case True
      then show ?thesis by (rule new)
    next
      case False
      with \<open>f' \<in> set (f # fs)\<close> have "f' = f" by simp
      with False keep [of f] have "map_of d' f' = Some (p - sp)"
        by (simp add: AList.update_conv')
      with sp \<open>f' = f\<close> show ?thesis by blast
    qed
  qed
  ultimately show ?case using d' by blast
qed

lemma train_Inr:
  assumes "train L s X y g = (Inr (m, perf), g1)"
  shows "case estimator s of
           Some est \<Rightarrow> est g X y = (Inr m, g1) \<and> (\<exists>y_pred. predict m X = Inr y_pred) \<and> perf = 1
         | None \<Rightarrow>
             if regression s
             then RandomForestRegressor L g X y = (Inr m, g1) \<and>
                  (\<exists>y_pred. predict m X = Inr y_pred \<and> mean_squared_error L y y_pred = Inr perf)
             else RandomForestClassifier L g X y = (Inr m, g1) \<and>
                  (\<exists>y_pred. predict_proba_1 m X = Inr y_pred \<and> roc_auc_score L y y_pred = Inr perf)"
  using assms
  by (auto simp: train_def split: option.splits sum.splits prod.splits if_splits)

lemma shuffled_model_performance_Inr:
  "shuffled_model_performance L regr m y df = Inr sp \<longleftrightarrow>
     (if regr then \<exists>y_pred. predict m df = Inr y_pred \<and> mean_squared_error L y y_pred = Inr sp
      else \<exists>y_pred. predict_proba_1 m df = Inr y_pred \<and> roc_auc_score L y y_pred = Inr sp)"
  by (auto simp: shuffled_model_performance_def split: sum.splits)

lemma find_all_variables_Inr:
  "find_all_variables df fs = Inr vs \<longleftrightarrow>
     (case fs of None \<Rightarrow> vs = column_names df
               | Some us \<Rightarrow> vs = us \<and> set us \<subseteq> set (column_names df))"
  by (auto simp: find_all_variables_def Let_def filter_empty_conv split: option.splits)

lemma fit_None:
  assumes "fit L X y \<sigma> = (None, \<sigma>')"
  shows "\<exists>a vs m perf \<sigma>1.
           X = DataFrameRef a \<and>
           fit_setup L X y \<sigma> = (Inr (next_addr \<sigma>, vs, m, perf), \<sigma>1) \<and>
           fit_loop L m perf (next_addr \<sigma>) y vs
             (\<sigma>1\<lparr>self := (self \<sigma>1)\<lparr>features_performance_drifts := Some []\<rparr>\<rparr>) = (None, \<sigma>')"
proof -
  obtain r \<sigma>1 where su: "fit_setup L X y \<sigma> = (r, \<sigma>1)" by (cases "fit_setup L X y \<sigma>")
  with assms obtain X' vs m perf where r: "r = Inr (X', vs, m, perf)"
    by (cases r) (auto simp: fit_def)
  from fit_setup_Inr [OF su [unfolded r]] obtain a where "X = DataFrameRef a" "X' = next_addr \<sigma>"
    by blast
  with assms su r show ?thesis by (auto simp: fit_def)
qed

lemma transform_self: "self (snd (transform X \<sigma>)) = self \<sigma>"
  by (cases X)
     (auto simp: transform_def is_dataframe_def drop_columns_def alloc_eq Let_def
           split: option.splits)

section \<open>The small instance, evaluated\<close>

lemma small_fit_succeeds:
  "fst (fit small_libraries (DataFrameRef 0) [10, 20] small_state) = None"
  by code_simp

lemma small_fit_result:
  "fit small_libraries (DataFrameRef 0) [10, 20] small_state = (None, small_fitted)"
  using small_fit_succeeds by (simp add: prod_eq_iff small_fitted_def)

lemma small_fitted_features:
  "features_to_shuffle (self small_fitted) = Some [''a'', ''b'']"
  by code_simp

lemma small_fitted_drifts:
  "features_performance_drifts (self small_fitted) = Some [(''a'', - 200), (''b'', 0)]"
  by code_simp

section \<open>Frames that exist before a call\<close>

lemma fit_frame:
  assumes "fit L X y \<sigma> = (r, \<sigma>')"
  shows "next_addr \<sigma> \<le> next_addr \<sigma>' \<and> (\<forall>a < next_addr \<sigma>. heap \<sigma>' a = heap \<sigma> a)"
proof (cases "fit_setup L X y \<sigma>")
  case (Pair r1 \<sigma>1)
  show ?thesis
  proof (cases r1)
    case (Inl e)
    with Pair assms have "\<sigma>' = \<sigma>1" by (simp add: fit_def)
    with fit_setup_Inl [OF Pair [unfolded Inl]] show ?thesis by simp
  next
    case (Inr t)
    obtain X' vs m perf where t: "t = (X', vs, m, perf)" by (cases t)
    from fit_setup_Inr [OF Pair [unfolded Inr t]] have
      h1: "heap \<sigma>1 = (heap \<sigma>)(next_addr \<sigma> := heap \<sigma> (case X of DataFrameRef a \<Rightarrow> a | _ \<Rightarrow> 0))" and
      n1: "next_addr \<sigma>1 = Suc (next_addr \<sigma>)"
      by auto
    from Pair Inr t assms have
      "fit_loop L m perf X' y vs
         (\<sigma>1\<lparr>self := (self \<sigma>1)\<lparr>features_performance_drifts := Some []\<rparr>\<rparr>) = (r, \<sigma>')"
      by (simp add: fit_def)
    from fit_loop_frame [OF this] have
      "next_addr \<sigma>1 \<le> next_addr \<sigma>'" "\<forall>a < next_addr \<sigma>1. heap \<sigma>' a = heap \<sigma>1 a"
      by simp_all
    with h1 n1 show ?thesis by simp
  qed
qed

lemma transform_cases:
  "transform X \<sigma> =
     (case features_performance_drifts (self \<sigma>) of
        None \<Rightarrow> (Inl NotFittedError, \<sigma>)
      | Some d \<Rightarrow>
          (case X of
             NotADataFrame \<Rightarrow> (Inl TypeError, \<sigma>)
           | DataFrameRef a \<Rightarrow>
               drop_columns
                 (if regression (self \<sigma>)
                  then [feature. (feature, drift) \<leftarrow> d, drift \<ge> threshold (self \<sigma>)]
                  else [feature. (feature, drift) \<leftarrow> d, drift \<le> threshold (self \<sigma>)])
                 (next_addr \<sigma>)
                 (\<sigma>\<lparr>heap := (heap \<sigma>)(next_addr \<sigma> := heap \<sigma> a),
                    next_addr := Suc (next_addr \<sigma>)\<rparr>)))"
  by (cases X) (simp_all add: transform_def is_dataframe_def alloc_eq split: option.splits)

lemma drop_columns_frame:
  assumes "drop_columns cs b \<sigma> = (r, \<sigma>')"
  shows "next_addr \<sigma> \<le> next_addr \<sigma>' \<and> (\<forall>a < next_addr \<sigma>. heap \<sigma>' a = heap \<sigma> a) \<and>
         self \<sigma>' = self \<sigma> \<and> rng \<sigma>' = rng \<sigma> \<and> (\<forall>c. r = Inr c \<longrightarrow> c = next_addr \<sigma>)"
  using assms by (auto simp: drop_columns_def alloc_eq Let_def split: if_splits)

lemma transform_frame:
  assumes "transform X \<sigma> = (r, \<sigma>')"
  shows "next_addr \<sigma> \<le> next_addr \<sigma>' \<and> (\<forall>a < next_addr \<sigma>. heap \<sigma>' a = heap \<sigma> a) \<and>
         self \<sigma>' = self \<sigma> \<and> rng \<sigma>' = rng \<sigma> \<and> (\<forall>c. r = Inr c \<longrightarrow> next_addr \<sigma> < c)"
proof (cases "features_performance_drifts (self \<sigma>)")
  case None
  with assms show ?thesis by (auto simp: transform_cases)
next
  case (Some d)
  show ?thesis
  proof (cases X)
    case NotADataFrame
    with Some assms show ?thesis by (auto simp: transform_cases)
  next
    case (DataFrameRef a)
    let ?\<sigma>1 = "\<sigma>\<lparr>heap := (heap \<sigma>)(next_addr \<sigma> := heap \<sigma> a),
                    next_addr := Suc (next_addr \<sigma>)\<rparr>"
    from Some DataFrameRef assms obtain cs where
      "drop_columns cs (next_addr \<sigma>) ?\<sigma>1 = (r, \<sigma>')"
      by (simp add: transform_cases)
    from drop_columns_frame [OF this] show ?thesis by auto
  qed
qed

section \<open>The frame that transform returns\<close>

lemma columns_to_drop_set:
  "set [feature. (feature, drift) \<leftarrow> d, P drift] = {f. \<exists>drift. (f, drift) \<in> set d \<and> P drift}"
  by (induction d) auto

lemma drop_columns_Inr:
  assumes "set cs \<subseteq> set (column_names (heap \<sigma> a))"
  shows "drop_columns cs a \<sigma> =
           (Inr (next_addr \<sigma>),
            \<sigma>\<lparr>heap := (heap \<sigma>)(next_addr \<sigma> :=
                     (heap \<sigma> a)\<lparr>columns := filter (\<lambda>(name, vs). name \<notin> set cs) (columns (heap \<sigma> a))\<rparr>),
              next_addr := Suc (next_addr \<sigma>)\<rparr>)"
proof -
  from assms have "filter (\<lambda>c. c \<notin> set (column_names (heap \<sigma> a))) cs = []"
    by (auto simp: filter_empty_conv)
  then show ?thesis
    by (simp add: drop_columns_def alloc_eq Let_def)
qed

lemma transform_Inr:
  fixes \<sigma> :: "('v, 'y, 'p :: ord, 'g) state"
  assumes "features_performance_drifts (self \<sigma>) = Some d"
    and "fst ` set d \<subseteq> set (column_names (heap \<sigma> a))"
  shows "\<exists>\<sigma>'. transform (DataFrameRef a) \<sigma> = (Inr (Suc (next_addr \<sigma>)), \<sigma>') \<and>
           index (heap \<sigma>' (Suc (next_addr \<sigma>))) = index (heap \<sigma> a) \<and>
           columns (heap \<sigma>' (Suc (next_addr \<sigma>))) =
             filter (\<lambda>(name, vs). \<not> (\<exists>drift. (name, drift) \<in> set d \<and>
                        (if regression (self \<sigma>) then drift \<ge> threshold (self \<sigma>)
                         else drift \<le> threshold (self \<sigma>))))
                    (columns (heap \<sigma> a))"
proof -
  let ?\<sigma>1 = "\<sigma>\<lparr>heap := (heap \<sigma>)(next_addr \<sigma> := heap \<sigma> a), next_addr := Suc (next_addr \<sigma>)\<rparr>"
  let ?P = "\<lambda>drift. if regression (self \<sigma>) then drift \<ge> threshold (self \<sigma>)
                    else drift \<le> threshold (self \<sigma>)"
  let ?cs = "[feature. (feature, drift) \<leftarrow> d, ?P drift]"
  have cs: "set ?cs = {f. \<exists>drift. (f, drift) \<in> set d \<and> ?P drift}"
    by (rule columns_to_drop_set)
  have sub: "set ?cs \<subseteq> set (column_names (heap ?\<sigma>1 (next_addr \<sigma>)))"
    using assms(2) unfolding cs by force
  have tr: "transform (DataFrameRef a) \<sigma> = drop_columns ?cs (next_addr \<sigma>) ?\<sigma>1"
    using assms(1) by (simp add: transform_def is_dataframe_def alloc_eq)
  let ?b = "Suc (next_addr \<sigma>)"
  let ?\<sigma>' = "snd (drop_columns ?cs (next_addr \<sigma>) ?\<sigma>1)"
  have res: "transform (DataFrameRef a) \<sigma> = (Inr ?b, ?\<sigma>')"
    and hp: "heap ?\<sigma>' ?b =
       (heap \<sigma> a)\<lparr>columns := filter (\<lambda>(name, vs). name \<notin> set ?cs) (columns (heap \<sigma> a))\<rparr>"
    unfolding tr drop_columns_Inr [OF sub] by simp_all
  have c: "columns (heap ?\<sigma>' ?b) =
             filter (\<lambda>(name, vs). \<not> (\<exists>drift. (name, drift) \<in> set d \<and> ?P drift))
                    (columns (heap \<sigma> a))"
    unfolding hp cs by simp
  from res hp c show ?thesis by (intro exI [of _ ?\<sigma>']) simp
qed

lemma small_fitted_transform:
  "fst (transform (DataFrameRef 0) small_fitted) = Inr 5" "next_addr small_fitted = 4"
  by code_simp+

lemma small_fitted_frame: "heap small_fitted 0 = frame01"
  by code_simp

lemma small_fitted_flags: "regression (self small_fitted)" "threshold (self small_fitted) = 0"
  by code_simp+

section \<open>The unfitted state\<close>

lemma drop_columns_not_NotFitted: "fst (drop_columns cs a \<sigma>) \<noteq> Inl NotFittedError"
  by (simp add: drop_columns_def alloc_eq Let_def)

lemma transform_NotFitted_iff:
  "fst (transform X \<sigma>) = Inl NotFittedError \<longleftrightarrow> features_performance_drifts (self \<sigma>) = None"
  by (cases X) (auto simp: transform_cases drop_columns_not_NotFitted split: option.splits)

lemma init_no_drifts:
  "init r c t f e sc = Inr s \<Longrightarrow> features_performance_drifts s = None"
  by (auto simp: init_def Let_def split: if_splits)

lemma fit_fails_in_setup:
  assumes "isl (fst (fit_setup L X y \<sigma>))"
  shows "features_performance_drifts (self (snd (fit L X y \<sigma>))) =
         features_performance_drifts (self \<sigma>)"
proof -
  obtain r \<sigma>1 where su: "fit_setup L X y \<sigma> = (r, \<sigma>1)" by (cases "fit_setup L X y \<sigma>")
  with assms obtain e where r: "r = Inl e" by (cases r) auto
  from su r have "fit L X y \<sigma> = (Some e, \<sigma>1)" by (simp add: fit_def)
  with fit_setup_Inl [OF su [unfolded r]] show ?thesis by simp
qed

lemma small_state_constructed:
  "init (PyBool True) (Some (PyBool True)) (Some 0) NoVariables None None = Inr (self small_state)"
  by (simp add: init_def small_state_def state_with_def small_selector_def)

lemma strict_state_constructed:
  "init (PyBool True) (Some (PyBool True)) (Some 0) NoVariables (Some strict_estimator) None
     = Inr (self strict_state)"
  by (simp add: init_def strict_state_def state_with_def small_selector_def)

lemma small_setup_not_a_frame:
  "isl (fst (fit_setup small_libraries NotADataFrame [10, 20] small_state))"
  by (simp add: fit_setup_def is_dataframe_def)

lemma strict_fit_raises:
  "fst (fit small_libraries (DataFrameRef 0) [10, 20] strict_state)
     = Some (ValueError ''Input contains NaN'')"
  by code_simp

lemma strict_transform_returns:
  "fst (transform (DataFrameRef 0) strict_after_fit) = Inr 4"
  by code_simp

lemma fit_reached_loop:
  assumes "\<not> isl (fst (fit_setup L X y \<sigma>))"
  shows "features_performance_drifts (self (snd (fit L X y \<sigma>))) \<noteq> None"
proof -
  obtain r \<sigma>1 where su: "fit_setup L X y \<sigma> = (r, \<sigma>1)" by (cases "fit_setup L X y \<sigma>")
  with assms obtain t where r: "r = Inr t" by (cases r) auto
  obtain X' vs m perf where t: "t = (X', vs, m, perf)" by (cases t)
  let ?\<sigma>2 = "\<sigma>1\<lparr>self := (self \<sigma>1)\<lparr>features_performance_drifts := Some []\<rparr>\<rparr>"
  from su r t have ft: "fit L X y \<sigma> = fit_loop L m perf X' y vs ?\<sigma>2" by (simp add: fit_def)
  from fit_loop_frame [of L m perf X' y vs ?\<sigma>2 "fst (fit L X y \<sigma>)" "snd (fit L X y \<sigma>)"] ft
  obtain d where "self (snd (fit L X y \<sigma>)) = (self ?\<sigma>2)\<lparr>features_performance_drifts := d\<rparr>"
    and "d \<noteq> None"
    by auto
  then show ?thesis by simp
qed


lemma strict_setup_returns:
  "\<not> isl (fst (fit_setup small_libraries (DataFrameRef 0) [10, 20] strict_state))"
  by code_simp


lemma classifier_state_constructed:
  "init (PyBool False) (Some (PyBool True)) (Some 0) NoVariables (Some regressor_estimator) None
     = Inr (self classifier_state)"
  by (simp add: init_def classifier_state_def state_with_def small_selector_def)

lemma classifier_fit_raises:
  "fst (fit small_libraries (DataFrameRef 0) [10, 20] classifier_state)
     = Some (AttributeError ''predict_proba'')"
  by code_simp

lemma classifier_transform_returns:
  "fst (transform (DataFrameRef 0) classifier_after_fit) = Inr 4"
  by code_simp


section \<open>Replacing scoring and cv\<close>

lemma with_scoring_cv_simps [simp]:
  "heap (with_scoring_cv sc c \<sigma>) = heap \<sigma>"
  "next_addr (with_scoring_cv sc c \<sigma>) = next_addr \<sigma>"
  "rng (with_scoring_cv sc c \<sigma>) = rng \<sigma>"
  "self (with_scoring_cv sc c \<sigma>) = (self \<sigma>)\<lparr>scoring := sc, cv := c\<rparr>"
  by (simp_all add: with_scoring_cv_def)

lemma train_ignores_scoring_cv: "train L (s\<lparr>scoring := sc, cv := c\<rparr>) = train L s"
  by (rule ext)+ (simp add: train_def)

lemma scoring_cv_last:
  "s\<lparr>scoring := sc, cv := c, features_to_shuffle := vs\<rparr> =
     s\<lparr>features_to_shuffle := vs, scoring := sc, cv := c\<rparr>"
  "s\<lparr>scoring := sc, cv := c, features_performance_drifts := d\<rparr> =
     s\<lparr>features_performance_drifts := d, scoring := sc, cv := c\<rparr>"
  by (cases s; simp)+

lemma fit_iteration_scoring_cv:
  "fit_iteration L m p X y f (with_scoring_cv sc c \<sigma>) =
     (fst (fit_iteration L m p X y f \<sigma>), with_scoring_cv sc c (snd (fit_iteration L m p X y f \<sigma>)))"
  by (simp add: fit_iteration_def alloc_eq shuffle_feature_def Let_def split_beta
        with_scoring_cv_def store_drift_def split: sum.splits)

lemma fit_loop_scoring_cv:
  "fit_loop L m p X y fs (with_scoring_cv sc c \<sigma>) =
     (fst (fit_loop L m p X y fs \<sigma>), with_scoring_cv sc c (snd (fit_loop L m p X y fs \<sigma>)))"
proof (induction fs arbitrary: \<sigma>)
  case Nil
  show ?case by simp
next
  case (Cons f fs)
  show ?case
    by (cases "fit_iteration L m p X y f \<sigma>")
       (auto simp: fit_iteration_scoring_cv Cons.IH split: option.splits)
qed

lemma fit_setup_scoring_cv:
  "fit_setup L X y (with_scoring_cv sc c \<sigma>) =
     (fst (fit_setup L X y \<sigma>), with_scoring_cv sc c (snd (fit_setup L X y \<sigma>)))"
  by (cases X)
     (auto simp: fit_setup_def is_dataframe_def alloc_eq Let_def with_scoring_cv_def
        scoring_cv_last train_ignores_scoring_cv split: sum.splits prod.splits)

lemma fit_scoring_cv:
  "fit L X y (with_scoring_cv sc c \<sigma>) =
     (fst (fit L X y \<sigma>), with_scoring_cv sc c (snd (fit L X y \<sigma>)))"
proof (cases "fit_setup L X y \<sigma>")
  case (Pair r \<sigma>1)
  show ?thesis
  proof (cases r)
    case (Inl e)
    with Pair show ?thesis by (simp add: fit_def fit_setup_scoring_cv)
  next
    case (Inr t)
    obtain X' vs m perf where t: "t = (X', vs, m, perf)" by (cases t)
    let ?\<sigma>2 = "\<sigma>1\<lparr>self := (self \<sigma>1)\<lparr>features_performance_drifts := Some []\<rparr>\<rparr>"
    have "fit L X y (with_scoring_cv sc c \<sigma>) =
            fit_loop L m perf X' y vs (with_scoring_cv sc c ?\<sigma>2)"
      using Pair Inr t
      by (simp add: fit_def fit_setup_scoring_cv) (simp add: with_scoring_cv_def scoring_cv_last)
    also have "\<dots> = (fst (fit_loop L m perf X' y vs ?\<sigma>2),
                      with_scoring_cv sc c (snd (fit_loop L m perf X' y vs ?\<sigma>2)))"
      by (rule fit_loop_scoring_cv)
    also have "fit_loop L m perf X' y vs ?\<sigma>2 = fit L X y \<sigma>"
      using Pair Inr t by (simp add: fit_def)
    finally show ?thesis .
  qed
qed

lemma transform_scoring_cv:
  "transform X (with_scoring_cv sc c \<sigma>) =
     (fst (transform X \<sigma>), with_scoring_cv sc c (snd (transform X \<sigma>)))"
  by (cases X)
     (auto simp: transform_cases drop_columns_def alloc_eq Let_def with_scoring_cv_def
        split: option.splits)

section \<open>When the collaborators return\<close>

lemma shuffled_column_names [simp]: "column_names (shuffled ps f df) = column_names df"
  by (auto simp: shuffled_def column_names_def split_beta)

lemma shuffled_model_performance_returns:
  assumes "model_returns m"
    and "\<forall>y y_pred. \<not> isl (mean_squared_error L y y_pred)"
    and "\<forall>y y_pred. \<not> isl (roc_auc_score L y y_pred)"
  shows "\<exists>sp. shuffled_model_performance L regr m y df = Inr sp"
proof -
  from assms(1) obtain p q where "predict m df = Inr p" "predict_proba_1 m df = Inr q"
    unfolding model_returns_def by (metis isl_def sum.exhaust_sel sum.collapse(2))
  moreover from assms(2,3) obtain u v where
    "mean_squared_error L y p = Inr u" "roc_auc_score L y q = Inr v"
    by (metis sum.collapse(2))
  ultimately show ?thesis by (simp add: shuffled_model_performance_def)
qed

lemma fit_iteration_returns:
  assumes "model_returns m"
    and "\<forall>y y_pred. \<not> isl (mean_squared_error L y y_pred)"
    and "\<forall>y y_pred. \<not> isl (roc_auc_score L y y_pred)"
    and "f \<in> set (column_names (heap \<sigma> X))"
  shows "fst (fit_iteration L m p X y f \<sigma>) = None"
proof -
  let ?Xs = "shuffled (fst (sample L (rng \<sigma>) (length (index (heap \<sigma> X))))) f (heap \<sigma> X)"
  from shuffled_model_performance_returns [OF assms(1-3)] obtain sp where
    "shuffled_model_performance L (regression (self \<sigma>)) m y ?Xs = Inr sp"
    by blast
  with assms(4) show ?thesis
    by (simp add: fit_iteration_def alloc_eq shuffle_feature_def Let_def split_beta)
qed

lemma fit_loop_returns:
  assumes "model_returns m"
    and "\<forall>y y_pred. \<not> isl (mean_squared_error L y y_pred)"
    and "\<forall>y y_pred. \<not> isl (roc_auc_score L y y_pred)"
    and "set fs \<subseteq> set (column_names (heap \<sigma> X))"
    and "X < next_addr \<sigma>"
  shows "fst (fit_loop L m p X y fs \<sigma>) = None"
  using assms(4,5)
proof (induction fs arbitrary: \<sigma>)
  case Nil
  show ?case by simp
next
  case (Cons f fs)
  obtain r1 \<sigma>1 where it: "fit_iteration L m p X y f \<sigma> = (r1, \<sigma>1)"
    by (cases "fit_iteration L m p X y f \<sigma>")
  from fit_iteration_returns [OF assms(1-3), of f \<sigma> X p y] Cons.prems(1) it
  have r1: "r1 = None" by simp
  from fit_iteration_frame [OF it] Cons.prems(2)
  have "heap \<sigma>1 X = heap \<sigma> X" "X < next_addr \<sigma>1" by auto
  with Cons.prems(1) Cons.IH [of \<sigma>1] have "fst (fit_loop L m p X y fs \<sigma>1) = None" by simp
  with it r1 show ?case by simp
qed

lemma train_returns:
  assumes "collaborators_return L (estimator s)"
  shows "\<exists>m perf g'. train L s X y g = (Inr (m, perf), g') \<and> model_returns m"
proof -
  have est: "\<exists>m g'. e g X y = (Inr m, g') \<and> model_returns m" if "estimator_returns e" for e
  proof -
    from that have "case fst (e g X y) of Inl e \<Rightarrow> False | Inr m \<Rightarrow> model_returns m"
      unfolding estimator_returns_def by blast
    then show ?thesis by (cases "e g X y") (auto split: sum.splits)
  qed
  have mr: "\<exists>p q. predict m X = Inr p \<and> predict_proba_1 m X = Inr q" if "model_returns m" for m
    using that unfolding model_returns_def by (metis sum.collapse(2))
  from assms have R: "estimator_returns (RandomForestRegressor L)"
    and C: "estimator_returns (RandomForestClassifier L)"
    and M: "\<And>y p. \<exists>u. mean_squared_error L y p = Inr u"
    and A: "\<And>y p. \<exists>u. roc_auc_score L y p = Inr u"
    unfolding collaborators_return_def by (auto, (metis sum.collapse(2))+)
  show ?thesis
  proof (cases "estimator s")
    case (Some e)
    with assms have "estimator_returns e" by (simp add: collaborators_return_def)
    from est [OF this] obtain m g' where m: "e g X y = (Inr m, g')" "model_returns m" by blast
    from mr [OF m(2)] obtain p where "predict m X = Inr p" by blast
    with Some m show ?thesis by (simp add: train_def)
  next
    case None
    show ?thesis
    proof (cases "regression s")
      case True
      from est [OF R] obtain m g' where
        m: "RandomForestRegressor L g X y = (Inr m, g')" "model_returns m" by blast
      from mr [OF m(2)] obtain p where p: "predict m X = Inr p" by blast
      from M [of y p] obtain u where "mean_squared_error L y p = Inr u" by blast
      with None True m p show ?thesis by (simp add: train_def)
    next
      case False
      from est [OF C] obtain m g' where
        m: "RandomForestClassifier L g X y = (Inr m, g')" "model_returns m" by blast
      from mr [OF m(2)] obtain q where q: "predict_proba_1 m X = Inr q" by blast
      from A [of y q] obtain u where "roc_auc_score L y q = Inr u" by blast
      with None False m q show ?thesis by (simp add: train_def)
    qed
  qed
qed

lemma fit_then_transform_returns:
  fixes \<sigma> :: "('v, 'y, 'p :: {one, minus, ord}, 'g) state"
  assumes "a < next_addr \<sigma>"
    and "case features_to_shuffle (self \<sigma>) of
           None \<Rightarrow> True | Some vs \<Rightarrow> set vs \<subseteq> set (column_names (heap \<sigma> a))"
    and "collaborators_return L (estimator (self \<sigma>))"
  shows "fst (fit L (DataFrameRef a) y \<sigma>) = None \<and>
         (\<exists>b. fst (transform (DataFrameRef a) (snd (fit L (DataFrameRef a) y \<sigma>))) = Inr b)"
proof -
  from assms(2) obtain vs where
    fa: "find_all_variables (heap \<sigma> a) (features_to_shuffle (self \<sigma>)) = Inr vs" and
    vs: "set vs \<subseteq> set (column_names (heap \<sigma> a))"
    by (cases "features_to_shuffle (self \<sigma>)") (auto simp: find_all_variables_Inr)
  let ?s = "(self \<sigma>)\<lparr>features_to_shuffle := Some vs\<rparr>"
  from assms(3) have "collaborators_return L (estimator ?s)" by simp
  from train_returns [OF this, of "heap \<sigma> a" y "rng \<sigma>"] obtain m perf g' where
    tr: "train L ?s (heap \<sigma> a) y (rng \<sigma>) = (Inr (m, perf), g')" and m: "model_returns m"
    by blast
  let ?\<sigma>1 = "\<sigma>\<lparr>heap := (heap \<sigma>)(next_addr \<sigma> := heap \<sigma> a), next_addr := Suc (next_addr \<sigma>),
               self := ?s, rng := g'\<rparr>"
  let ?\<sigma>2 = "?\<sigma>1\<lparr>self := (self ?\<sigma>1)\<lparr>features_performance_drifts := Some []\<rparr>\<rparr>"
  have su: "fit_setup L (DataFrameRef a) y \<sigma> = (Inr (next_addr \<sigma>, vs, m, perf), ?\<sigma>1)"
    using fa tr by (simp add: fit_setup_def is_dataframe_def alloc_eq)
  then have ft: "fit L (DataFrameRef a) y \<sigma> = fit_loop L m perf (next_addr \<sigma>) y vs ?\<sigma>2"
    by (simp add: fit_def)
  from assms(3) have met: "\<forall>y y_pred. \<not> isl (mean_squared_error L y y_pred)"
    "\<forall>y y_pred. \<not> isl (roc_auc_score L y y_pred)"
    by (simp_all add: collaborators_return_def)
  have "set vs \<subseteq> set (column_names (heap ?\<sigma>2 (next_addr \<sigma>)))" "next_addr \<sigma> < next_addr ?\<sigma>2"
    using vs by simp_all
  from fit_loop_returns [OF m met this] have ok: "fst (fit L (DataFrameRef a) y \<sigma>) = None"
    by (simp add: ft)
  let ?\<sigma>' = "snd (fit L (DataFrameRef a) y \<sigma>)"
  have lp: "fit_loop L m perf (next_addr \<sigma>) y vs ?\<sigma>2 = (None, ?\<sigma>')"
    using ok ft by (simp add: prod_eq_iff)
  from fit_loop_keys [OF lp] obtain d where
    d: "features_performance_drifts (self ?\<sigma>') = Some d" "fst ` set d = set vs"
    by auto
  from fit_frame [of L "DataFrameRef a" y \<sigma> None ?\<sigma>'] ok assms(1)
  have "heap ?\<sigma>' a = heap \<sigma> a" by (simp add: prod_eq_iff)
  with d vs have "fst ` set d \<subseteq> set (column_names (heap ?\<sigma>' a))" by simp
  from transform_Inr [OF d(1) this] ok show ?thesis by auto
qed

lemma small_collaborators_return: "collaborators_return small_libraries None"
  by (auto simp: collaborators_return_def estimator_returns_def model_returns_def
        small_libraries_def first_column_estimator_def first_column_model_def squared_error_def
        Let_def split: list.splits)

lemma fit_then_transform_returns_small:
  "(0::nat) < next_addr small_state \<and>
   collaborators_return small_libraries (estimator (self small_state)) \<and>
   fst (fit small_libraries (DataFrameRef 0) [10, 20] small_state) = None \<and>
   (\<exists>b. fst (transform (DataFrameRef 0) small_fitted) = Inr b)"
proof -
  have h: "(0::nat) < next_addr small_state"
    "case features_to_shuffle (self small_state) of
       None \<Rightarrow> True | Some vs \<Rightarrow> set vs \<subseteq> set (column_names (heap small_state 0))"
    "collaborators_return small_libraries (estimator (self small_state))"
    using small_collaborators_return
    by (simp_all add: small_state_def state_with_def small_selector_def)
  from fit_then_transform_returns [OF h, of "[10, 20]"] h show ?thesis
    by (simp add: small_fitted_def)
qed

section \<open>Two runs of fit\<close>



















section \<open>Shuffling under the default row labels\<close>

lemma reindex_RangeIndex: "reindex xs (RangeIndex (length xs)) = xs"
proof -
  have "map (\<lambda>i. if i < length xs then xs ! nat (int i) else None) [0..<length xs] =
        map (\<lambda>i. xs ! i) [0..<length xs]"
    by (rule map_cong) simp_all
  then show ?thesis by (simp add: reindex_def RangeIndex_def o_def map_nth)
qed

lemma shuffle_permutes_on_RangeIndex:
  assumes "index df = RangeIndex n" and "mset ps = mset [0..<n]"
    and "(f, vs) \<in> set (columns df)" and "length vs = n"
  shows "(f, map (\<lambda>i. vs ! i) ps) \<in> set (columns (shuffled ps f df)) \<and>
         mset (map (\<lambda>i. vs ! i) ps) = mset vs"
proof -
  from assms(2) have "size (mset ps) = size (mset [0..<n])" by simp
  then have len: "length ps = n" by simp
  have "reindex (map (\<lambda>i. vs ! i) ps) (index df) = map (\<lambda>i. vs ! i) ps"
    using reindex_RangeIndex [of "map (\<lambda>i. vs ! i) ps"] assms(1) len by simp
  with assms(3) have col: "(f, map (\<lambda>i. vs ! i) ps) \<in> set (columns (shuffled ps f df))"
    by (force simp: shuffled_def)
  have "mset (map (\<lambda>i. vs ! i) ps) = image_mset (\<lambda>i. vs ! i) (mset ps)" by simp
  also have "\<dots> = image_mset (\<lambda>i. vs ! i) (mset [0..<n])" by (simp only: assms(2))
  also have "\<dots> = mset (map (\<lambda>i. vs ! i) [0..<n])" by (simp only: mset_map)
  also have "\<dots> = mset vs" using assms(4) map_nth [of vs] by simp
  finally have "mset (map (\<lambda>i. vs ! i) ps) = mset vs" .
  with col show ?thesis by simp
qed

section \<open>The claims\<close>

subsection \<open>The drift of a feature\<close>

text \<open>
  Claim C1. When \<^verbatim>\<open>fit\<close> returns, the drift stored for each resolved feature is the
  baseline performance minus the shuffled performance. The baseline is 1 with an
  estimator of the caller, the mean squared error of the predictions of the trained
  default regressor in regression mode, and the area under the curve of the positive-class
  probabilities of the trained default classifier otherwise. The shuffled performance is
  the metric of the mode, on the predictions of the same model for a copy of \<^verbatim>\<open>X\<close> with
  that feature shuffled by a draw of the sampler.
\<close>

theorem fit_drift_is_baseline_minus_shuffled:
  assumes "fit L X y \<sigma> = (None, \<sigma>')"
  shows "\<exists>a vs d m perf g1.
           X = DataFrameRef a \<and>
           features_to_shuffle (self \<sigma>') = Some vs \<and>
           features_performance_drifts (self \<sigma>') = Some d \<and>
           (case estimator (self \<sigma>) of
              Some est \<Rightarrow> est (rng \<sigma>) (heap \<sigma> a) y = (Inr m, g1) \<and> perf = 1
            | None \<Rightarrow>
                if regression (self \<sigma>)
                then RandomForestRegressor L (rng \<sigma>) (heap \<sigma> a) y = (Inr m, g1) \<and>
                     (\<exists>y_pred. predict m (heap \<sigma> a) = Inr y_pred \<and>
                               mean_squared_error L y y_pred = Inr perf)
                else RandomForestClassifier L (rng \<sigma>) (heap \<sigma> a) y = (Inr m, g1) \<and>
                     (\<exists>y_pred. predict_proba_1 m (heap \<sigma> a) = Inr y_pred \<and>
                               roc_auc_score L y y_pred = Inr perf)) \<and>
           (\<forall>f \<in> set vs. \<exists>g X_shuffled shuffled_performance.
              X_shuffled = shuffled (fst (sample L g (length (index (heap \<sigma> a))))) f (heap \<sigma> a) \<and>
              (if regression (self \<sigma>)
               then \<exists>y_pred. predict m X_shuffled = Inr y_pred \<and>
                             mean_squared_error L y y_pred = Inr shuffled_performance
               else \<exists>y_pred. predict_proba_1 m X_shuffled = Inr y_pred \<and>
                             roc_auc_score L y y_pred = Inr shuffled_performance) \<and>
              map_of d f = Some (perf - shuffled_performance))"
proof -
  from fit_None [OF assms] obtain a vs m perf \<sigma>1 where
    X: "X = DataFrameRef a" and
    su: "fit_setup L X y \<sigma> = (Inr (next_addr \<sigma>, vs, m, perf), \<sigma>1)" and
    lp: "fit_loop L m perf (next_addr \<sigma>) y vs
             (\<sigma>1\<lparr>self := (self \<sigma>1)\<lparr>features_performance_drifts := Some []\<rparr>\<rparr>) = (None, \<sigma>')"
    by blast
  let ?\<sigma>2 = "\<sigma>1\<lparr>self := (self \<sigma>1)\<lparr>features_performance_drifts := Some []\<rparr>\<rparr>"
  from fit_setup_Inr [OF su] X have
    tr: "train L ((self \<sigma>)\<lparr>features_to_shuffle := Some vs\<rparr>) (heap \<sigma> a) y (rng \<sigma>)
             = (Inr (m, perf), rng \<sigma>1)" and
    h1: "heap \<sigma>1 = (heap \<sigma>)(next_addr \<sigma> := heap \<sigma> a)" and
    n1: "next_addr \<sigma>1 = Suc (next_addr \<sigma>)" and
    s1: "self \<sigma>1 = (self \<sigma>)\<lparr>features_to_shuffle := Some vs\<rparr>"
    by auto
  have base: "case estimator (self \<sigma>) of
              Some est \<Rightarrow> est (rng \<sigma>) (heap \<sigma> a) y = (Inr m, rng \<sigma>1) \<and> perf = 1
            | None \<Rightarrow>
                if regression (self \<sigma>)
                then RandomForestRegressor L (rng \<sigma>) (heap \<sigma> a) y = (Inr m, rng \<sigma>1) \<and>
                     (\<exists>y_pred. predict m (heap \<sigma> a) = Inr y_pred \<and>
                               mean_squared_error L y y_pred = Inr perf)
                else RandomForestClassifier L (rng \<sigma>) (heap \<sigma> a) y = (Inr m, rng \<sigma>1) \<and>
                     (\<exists>y_pred. predict_proba_1 m (heap \<sigma> a) = Inr y_pred \<and>
                               roc_auc_score L y y_pred = Inr perf)"
    using train_Inr [OF tr] by (auto split: option.splits)
  have "next_addr \<sigma> < next_addr ?\<sigma>2" "features_performance_drifts (self ?\<sigma>2) = Some []"
    using n1 by simp_all
  from fit_loop_drifts [OF lp this] obtain d where
    d: "features_performance_drifts (self \<sigma>') = Some d" and
    each: "\<And>f. f \<in> set vs \<Longrightarrow> \<exists>g sp.
               shuffled_model_performance L (regression (self \<sigma>)) m y
                 (shuffled (fst (sample L g (length (index (heap \<sigma> a))))) f (heap \<sigma> a)) = Inr sp \<and>
               map_of d f = Some (perf - sp)"
    using h1 s1 by auto
  from fit_loop_frame [OF lp] s1 have fs: "features_to_shuffle (self \<sigma>') = Some vs"
    by auto
  have "\<forall>f \<in> set vs. \<exists>g X_shuffled shuffled_performance.
              X_shuffled = shuffled (fst (sample L g (length (index (heap \<sigma> a))))) f (heap \<sigma> a) \<and>
              (if regression (self \<sigma>)
               then \<exists>y_pred. predict m X_shuffled = Inr y_pred \<and>
                             mean_squared_error L y y_pred = Inr shuffled_performance
               else \<exists>y_pred. predict_proba_1 m X_shuffled = Inr y_pred \<and>
                             roc_auc_score L y y_pred = Inr shuffled_performance) \<and>
              map_of d f = Some (perf - shuffled_performance)"
  proof
    fix f assume "f \<in> set vs"
    from each [OF this] obtain g sp where
      "shuffled_model_performance L (regression (self \<sigma>)) m y
                 (shuffled (fst (sample L g (length (index (heap \<sigma> a))))) f (heap \<sigma> a)) = Inr sp"
      "map_of d f = Some (perf - sp)"
      by blast
    then show "\<exists>g X_shuffled shuffled_performance.
              X_shuffled = shuffled (fst (sample L g (length (index (heap \<sigma> a))))) f (heap \<sigma> a) \<and>
              (if regression (self \<sigma>)
               then \<exists>y_pred. predict m X_shuffled = Inr y_pred \<and>
                             mean_squared_error L y y_pred = Inr shuffled_performance
               else \<exists>y_pred. predict_proba_1 m X_shuffled = Inr y_pred \<and>
                             roc_auc_score L y y_pred = Inr shuffled_performance) \<and>
              map_of d f = Some (perf - shuffled_performance)"
      unfolding shuffled_model_performance_Inr by blast
  qed
  with X fs d base show ?thesis by blast
qed

theorem fit_drift_is_baseline_minus_shuffled_witness:
  "fit small_libraries (DataFrameRef 0) [10, 20] small_state = (None, small_fitted) \<and>
   (\<exists>d (m :: (int, int list) model) perf.
      features_performance_drifts (self small_fitted) = Some d \<and>
      (\<exists>y_pred. predict m frame01 = Inr y_pred \<and> squared_error [10, 20] y_pred = Inr perf) \<and>
      (\<forall>f \<in> {''a'', ''b''}. \<exists>sp y_pred.
          predict m (shuffled [1, 0] f frame01) = Inr y_pred \<and>
          squared_error [10, 20] y_pred = Inr sp \<and>
          map_of d f = Some (perf - sp)))"
proof -
  from fit_drift_is_baseline_minus_shuffled [OF small_fit_result] obtain a vs d m perf g1 where
    vs: "features_to_shuffle (self small_fitted) = Some vs" and
    d: "features_performance_drifts (self small_fitted) = Some d" and
    base: "case estimator (self small_state) of
              Some est \<Rightarrow> est (rng small_state) (heap small_state a) [10, 20] = (Inr m, g1) \<and> perf = 1
            | None \<Rightarrow>
                if regression (self small_state)
                then RandomForestRegressor small_libraries (rng small_state) (heap small_state a) [10, 20]
                       = (Inr m, g1) \<and>
                     (\<exists>y_pred. predict m (heap small_state a) = Inr y_pred \<and>
                               mean_squared_error small_libraries [10, 20] y_pred = Inr perf)
                else RandomForestClassifier small_libraries (rng small_state) (heap small_state a) [10, 20]
                       = (Inr m, g1) \<and>
                     (\<exists>y_pred. predict_proba_1 m (heap small_state a) = Inr y_pred \<and>
                               roc_auc_score small_libraries [10, 20] y_pred = Inr perf)" and
    each: "\<forall>f \<in> set vs. \<exists>g X_shuffled shuffled_performance.
              X_shuffled = shuffled (fst (sample small_libraries g
                  (length (index (heap small_state a))))) f (heap small_state a) \<and>
              (if regression (self small_state)
               then \<exists>y_pred. predict m X_shuffled = Inr y_pred \<and>
                             mean_squared_error small_libraries [10, 20] y_pred = Inr shuffled_performance
               else \<exists>y_pred. predict_proba_1 m X_shuffled = Inr y_pred \<and>
                             roc_auc_score small_libraries [10, 20] y_pred = Inr shuffled_performance) \<and>
              map_of d f = Some (perf - shuffled_performance)"
    by blast
  have st: "heap small_state a = frame01" "regression (self small_state)"
    "estimator (self small_state) = None"
    "mean_squared_error small_libraries = squared_error"
    "\<And>g. fst (sample small_libraries g (length (index frame01))) = [1, 0]"
    by (simp_all add: small_state_def state_with_def small_selector_def small_libraries_def
          frame01_def upt_rec)
  from vs small_fitted_features have "vs = [''a'', ''b'']" by simp
  with base each d have
    "(\<exists>y_pred. predict m frame01 = Inr y_pred \<and> squared_error [10, 20] y_pred = Inr perf) \<and>
     (\<forall>f \<in> {''a'', ''b''}. \<exists>sp y_pred.
          predict m (shuffled [1, 0] f frame01) = Inr y_pred \<and>
          squared_error [10, 20] y_pred = Inr sp \<and>
          map_of d f = Some (perf - sp))"
    by (simp add: st) blast
  with d small_fit_result show ?thesis by blast
qed

subsection \<open>The columns that transform drops\<close>

text \<open>
  Claim C2. On a fitted selector, and a frame \<^verbatim>\<open>X\<close> that has the features of the drift
  dictionary among its columns, \<^verbatim>\<open>transform\<close> returns a frame with the row labels of \<^verbatim>\<open>X\<close>
  and the columns of \<^verbatim>\<open>X\<close> in their order, without exactly the features whose drift is at
  least the threshold (regression) or at most the threshold (classification). A feature
  whose drift equals the threshold is dropped in both modes.
\<close>

theorem transform_drops_by_threshold:
  fixes \<sigma> :: "('v, 'y, 'p :: preorder, 'g) state"
  assumes "features_performance_drifts (self \<sigma>) = Some d"
    and "fst ` set d \<subseteq> set (column_names (heap \<sigma> a))"
  shows "\<exists>b \<sigma>'. transform (DataFrameRef a) \<sigma> = (Inr b, \<sigma>') \<and>
           index (heap \<sigma>' b) = index (heap \<sigma> a) \<and>
           columns (heap \<sigma>' b) =
             filter (\<lambda>(name, vs). \<not> (\<exists>drift. (name, drift) \<in> set d \<and>
                        (if regression (self \<sigma>) then drift \<ge> threshold (self \<sigma>)
                         else drift \<le> threshold (self \<sigma>))))
                    (columns (heap \<sigma> a)) \<and>
           (\<forall>name. (name, threshold (self \<sigma>)) \<in> set d \<longrightarrow>
                   name \<notin> set (column_names (heap \<sigma>' b)))"
proof -
  from transform_Inr [OF assms] obtain \<sigma>' where
    t: "transform (DataFrameRef a) \<sigma> = (Inr (Suc (next_addr \<sigma>)), \<sigma>')"
       "index (heap \<sigma>' (Suc (next_addr \<sigma>))) = index (heap \<sigma> a)" and
    c: "columns (heap \<sigma>' (Suc (next_addr \<sigma>))) =
             filter (\<lambda>(name, vs). \<not> (\<exists>drift. (name, drift) \<in> set d \<and>
                        (if regression (self \<sigma>) then drift \<ge> threshold (self \<sigma>)
                         else drift \<le> threshold (self \<sigma>))))
                    (columns (heap \<sigma> a))"
    by blast
  have "\<forall>name. (name, threshold (self \<sigma>)) \<in> set d \<longrightarrow>
                   name \<notin> set (column_names (heap \<sigma>' (Suc (next_addr \<sigma>))))"
    unfolding column_names_def c by (auto simp: order_refl)
  with t c show ?thesis by blast
qed

theorem transform_drops_by_threshold_witness:
  "features_performance_drifts (self small_fitted) = Some [(''a'', - 200), (''b'', 0)] \<and>
   fst ` set [(''a'', - 200 :: int), (''b'', 0)] \<subseteq> set (column_names (heap small_fitted 0)) \<and>
   (\<exists>b \<sigma>'. transform (DataFrameRef 0) small_fitted = (Inr b, \<sigma>') \<and>
      index (heap \<sigma>' b) = [IntLabel 0, IntLabel 1] \<and>
      columns (heap \<sigma>' b) = [(''a'', [Some 10, Some 20])])"
proof -
  have sub: "fst ` set [(''a'', - 200 :: int), (''b'', 0)] \<subseteq> set (column_names (heap small_fitted 0))"
    by (simp add: small_fitted_frame frame01_def column_names_def)
  from transform_drops_by_threshold [OF small_fitted_drifts sub] sub small_fitted_drifts
  show ?thesis
    by (simp add: small_fitted_frame small_fitted_flags) (auto simp: frame01_def)
qed

subsection \<open>Construction fails on a flag that is not a boolean\<close>

text \<open>
  Claim C3. Construction fails if and only if \<^verbatim>\<open>regression\<close> is not a boolean or \<^verbatim>\<open>cv\<close>
  (3 when left out) is not a boolean, and it fails with a \<^verbatim>\<open>ValueError\<close>. With \<^verbatim>\<open>cv\<close> left
  at its default it always fails, and a successful construction was given explicit
  booleans for both flags.
\<close>

theorem init_fails_iff_flag_not_bool:
  fixes r :: "error + ('v, 'y, 'p :: zero, 'g) selector"
  assumes "r = init regression_arg cv_arg th fs est sc"
  shows "(isl r \<longleftrightarrow>
            \<not> isinstance_bool regression_arg \<or>
            \<not> isinstance_bool (case cv_arg of None \<Rightarrow> PyInt 3 | Some c \<Rightarrow> c))
       \<and> (isl r \<longrightarrow> (\<exists>msg. r = Inl (ValueError msg)))
       \<and> (cv_arg = None \<longrightarrow> isl r)
       \<and> (\<not> isl r \<longrightarrow> (\<exists>b c. regression_arg = PyBool b \<and> cv_arg = Some (PyBool c)))"
  unfolding assms init_def Let_def
  by (cases cv_arg) (auto simp: isinstance_bool_iff)

theorem init_fails_iff_flag_not_bool_witness:
  "(\<exists>msg. (init (PyBool True) None (Some (0::int)) NoVariables
             (None :: (nat, nat, nat) estimator option) None
               :: error + (nat, nat, int, nat) selector) = Inl (ValueError msg))
   \<and> (\<exists>msg. (init (PyInt 1) (Some (PyBool True)) (Some (0::int)) NoVariables
             (None :: (nat, nat, nat) estimator option) None
               :: error + (nat, nat, int, nat) selector) = Inl (ValueError msg))
   \<and> \<not> isl (init (PyBool True) (Some (PyBool False)) (Some (0::int)) NoVariables
          (None :: (nat, nat, nat) estimator option) None :: error + (nat, nat, int, nat) selector)"
  using init_fails_iff_flag_not_bool [OF refl, of "PyBool True" None "Some (0::int)" NoVariables
          "None :: (nat, nat, nat) estimator option" None]
        init_fails_iff_flag_not_bool [OF refl, of "PyInt 1" "Some (PyBool True)" "Some (0::int)"
          NoVariables "None :: (nat, nat, nat) estimator option" None]
        init_fails_iff_flag_not_bool [OF refl, of "PyBool True" "Some (PyBool False)"
          "Some (0::int)" NoVariables "None :: (nat, nat, nat) estimator option" None]
  by simp

subsection \<open>Shuffling and the row labels\<close>

text \<open>
  Claim C4 at a frame whose row labels are 1 and 2. The assignment of line 155 aligns the
  shuffled series, relabelled 0 and 1, on the row labels of the frame: the row labelled 1
  takes the second shuffled value and the row labelled 2 takes \<^verbatim>\<open>NaN\<close>. For each of the two
  orders that \<^verbatim>\<open>sample\<close> can draw, the column of the copy is not a rearrangement of the
  column of \<^verbatim>\<open>X\<close>.
\<close>

theorem shuffle_loses_values_on_shifted_row_labels:
  "heap strict_state 0 = frame12 \<and>
   map_of (columns frame12) ''a'' = Some [Some 10, Some 20] \<and>
   heap (snd (fit_iteration small_libraries strict_model 1 0 [10, 20] ''a'' strict_state)) 1 =
     \<lparr> index = [IntLabel 1, IntLabel 2],
       columns = [(''a'', [Some 10, None]), (''b'', [Some 5, Some 7])] \<rparr> \<and>
   map_of (columns (shuffled [1, 0] ''a'' frame12)) ''a'' = Some [Some 10, None] \<and>
   map_of (columns (shuffled [0, 1] ''a'' frame12)) ''a'' = Some [Some 20, None] \<and>
   mset [Some 10, None] \<noteq> mset [Some 10, Some (20 :: int)] \<and>
   mset [Some 20, None] \<noteq> mset [Some 10, Some (20 :: int)]"
proof -
  have 1: "heap strict_state 0 = frame12"
    by (simp add: strict_state_def state_with_def)
  have 2: "map_of (columns frame12) ''a'' = Some [Some 10, Some 20]"
    by (simp add: frame12_def)
  have 3: "heap (snd (fit_iteration small_libraries strict_model 1 0 [10, 20] ''a'' strict_state)) 1 =
     \<lparr> index = [IntLabel 1, IntLabel 2],
       columns = [(''a'', [Some 10, None]), (''b'', [Some 5, Some 7])] \<rparr>"
    by code_simp
  have 4: "map_of (columns (shuffled [1, 0] ''a'' frame12)) ''a'' = Some [Some 10, None]"
    "map_of (columns (shuffled [0, 1] ''a'' frame12)) ''a'' = Some [Some 20, None]"
    by (simp_all add: shuffled_def frame12_def reindex_def)
  have 5: "mset [Some 10, None] \<noteq> mset [Some 10, Some (20 :: int)]"
    "mset [Some 20, None] \<noteq> mset [Some 10, Some (20 :: int)]"
    by simp_all
  from 1 2 3 4 5 show ?thesis by blast
qed

subsection \<open>The keys of the drift dictionary\<close>

text \<open>
  Claim C5. When \<^verbatim>\<open>fit\<close> returns, the keys of the drift dictionary are exactly the resolved
  features, which are all columns of \<^verbatim>\<open>X\<close> when no list was given at construction and the
  given list otherwise; \<^verbatim>\<open>transform\<close> leaves the selector, and so the dictionary, as it is.
\<close>

theorem fit_drift_keys:
  assumes "fit L X y \<sigma> = (None, \<sigma>')"
  shows "(\<exists>a vs d. X = DataFrameRef a \<and>
            vs = (case features_to_shuffle (self \<sigma>) of
                    None \<Rightarrow> column_names (heap \<sigma> a) | Some fs \<Rightarrow> fs) \<and>
            features_to_shuffle (self \<sigma>') = Some vs \<and>
            features_performance_drifts (self \<sigma>') = Some d \<and>
            fst ` set d = set vs \<and> distinct (map fst d)) \<and>
         self (snd (transform X2 \<sigma>')) = self \<sigma>'"
proof -
  from fit_None [OF assms] obtain a vs m perf \<sigma>1 where
    X: "X = DataFrameRef a" and
    su: "fit_setup L X y \<sigma> = (Inr (next_addr \<sigma>, vs, m, perf), \<sigma>1)" and
    lp: "fit_loop L m perf (next_addr \<sigma>) y vs
             (\<sigma>1\<lparr>self := (self \<sigma>1)\<lparr>features_performance_drifts := Some []\<rparr>\<rparr>) = (None, \<sigma>')"
    by blast
  from fit_setup_Inr [OF su] X have
    fa: "find_all_variables (heap \<sigma> a) (features_to_shuffle (self \<sigma>)) = Inr vs" and
    s1: "self \<sigma>1 = (self \<sigma>)\<lparr>features_to_shuffle := Some vs\<rparr>"
    by auto
  from fa have vs: "vs = (case features_to_shuffle (self \<sigma>) of
                    None \<Rightarrow> column_names (heap \<sigma> a) | Some fs \<Rightarrow> fs)"
    by (auto simp: find_all_variables_Inr split: option.splits)
  from fit_loop_keys [OF lp] obtain d where
    d: "features_performance_drifts (self \<sigma>') = Some d" "fst ` set d = set vs" "distinct (map fst d)"
    by auto
  from fit_loop_frame [OF lp] s1 have "features_to_shuffle (self \<sigma>') = Some vs"
    by auto
  with X vs d show ?thesis by (simp add: transform_self)
qed

theorem fit_drift_keys_witness:
  "fit small_libraries (DataFrameRef 0) [10, 20] small_state = (None, small_fitted) \<and>
   (\<exists>d. features_performance_drifts (self small_fitted) = Some d \<and>
        fst ` set d = {''a'', ''b''} \<and> distinct (map fst d)) \<and>
   self (snd (transform (DataFrameRef 0) small_fitted)) = self small_fitted"
proof -
  from fit_drift_keys [OF small_fit_result, of "DataFrameRef 0"] obtain vs d where
    "features_to_shuffle (self small_fitted) = Some vs"
    "features_performance_drifts (self small_fitted) = Some d"
    "fst ` set d = set vs" "distinct (map fst d)"
    "self (snd (transform (DataFrameRef 0) small_fitted)) = self small_fitted"
    by blast
  with small_fitted_features small_fit_result show ?thesis by auto
qed

subsection \<open>transform before fit\<close>

text \<open>
  Claim C6, as the code has it. \<^verbatim>\<open>transform\<close> fails with the unfitted-state error, for
  every \<^verbatim>\<open>X\<close>, exactly when the drift dictionary does not exist. It does not exist on a
  selector fresh from the constructor, and it still does not exist after a \<^verbatim>\<open>fit\<close> that
  raised before its loop: in the validation of \<^verbatim>\<open>X\<close>, the resolution of the features,
  the training or the baseline. Once a \<^verbatim>\<open>fit\<close> has got as far as its loop, whether it then
  raises inside the loop or returns, the dictionary exists and \<^verbatim>\<open>transform\<close> does not fail
  with the unfitted-state error.
\<close>

theorem transform_not_fitted_iff_no_drifts:
  "(fst (transform X \<sigma>) = Inl NotFittedError \<longleftrightarrow>
      features_performance_drifts (self \<sigma>) = None) \<and>
   (init r c t f e sc = Inr s \<longrightarrow> features_performance_drifts s = None) \<and>
   (features_performance_drifts (self \<sigma>) = None \<and> isl (fst (fit_setup L X' y \<sigma>)) \<longrightarrow>
      features_performance_drifts (self (snd (fit L X' y \<sigma>))) = None) \<and>
   (\<not> isl (fst (fit_setup L X' y \<sigma>)) \<longrightarrow>
      features_performance_drifts (self (snd (fit L X' y \<sigma>))) \<noteq> None \<and>
      fst (transform X (snd (fit L X' y \<sigma>))) \<noteq> Inl NotFittedError)"
  using transform_NotFitted_iff [of X \<sigma>] init_no_drifts [of r c t f e sc s]
    fit_fails_in_setup [of L X' y \<sigma>] fit_reached_loop [of L X' y \<sigma>]
    transform_NotFitted_iff [of X "snd (fit L X' y \<sigma>)"]
  by auto


theorem transform_not_fitted_iff_no_drifts_witness:
  "init (PyBool True) (Some (PyBool True)) (Some 0) NoVariables None None = Inr (self small_state) \<and>
   isl (fst (fit_setup small_libraries NotADataFrame [10, 20] small_state)) \<and>
   fst (transform (DataFrameRef 0) small_state) = Inl NotFittedError \<and>
   fst (transform (DataFrameRef 0) (snd (fit small_libraries NotADataFrame [10, 20] small_state)))
     = Inl NotFittedError \<and>
   \<not> isl (fst (fit_setup small_libraries (DataFrameRef 0) [10, 20] strict_state)) \<and>
   fst (fit small_libraries (DataFrameRef 0) [10, 20] strict_state)
     = Some (ValueError ''Input contains NaN'') \<and>
   features_performance_drifts
     (self (snd (fit small_libraries (DataFrameRef 0) [10, 20] strict_state))) \<noteq> None \<and>
   fst (transform (DataFrameRef 0) (snd (fit small_libraries (DataFrameRef 0) [10, 20] strict_state)))
     \<noteq> Inl NotFittedError"
proof -
  note t = transform_not_fitted_iff_no_drifts [of _ _ "PyBool True" "Some (PyBool True)"
      "Some 0" NoVariables None None "self small_state" small_libraries NotADataFrame "[10, 20]"]
  from t [of "DataFrameRef 0" small_state] small_state_constructed small_setup_not_a_frame
  have 1: "fst (transform (DataFrameRef 0) small_state) = Inl NotFittedError"
    and 2: "features_performance_drifts
              (self (snd (fit small_libraries NotADataFrame [10, 20] small_state))) = None"
    by simp_all
  from t [of "DataFrameRef 0" "snd (fit small_libraries NotADataFrame [10, 20] small_state)"] 2
  have 3: "fst (transform (DataFrameRef 0) (snd (fit small_libraries NotADataFrame [10, 20] small_state)))
     = Inl NotFittedError" by simp
  from transform_not_fitted_iff_no_drifts [of "DataFrameRef 0" strict_state "PyBool True"
      "Some (PyBool True)" "Some 0" NoVariables None None "self small_state" small_libraries
      "DataFrameRef 0" "[10, 20]"] strict_setup_returns
  have 4: "features_performance_drifts
     (self (snd (fit small_libraries (DataFrameRef 0) [10, 20] strict_state))) \<noteq> None"
    "fst (transform (DataFrameRef 0) (snd (fit small_libraries (DataFrameRef 0) [10, 20] strict_state)))
     \<noteq> Inl NotFittedError"
    by simp_all
  from 1 3 4 small_state_constructed small_setup_not_a_frame strict_setup_returns strict_fit_raises
  show ?thesis by simp
qed


text \<open>
  Claim C6, as it is stated, fails at two selectors on which \<^verbatim>\<open>fit\<close> has not completed. The
  first holds the strict estimator; the frame has the row labels 1 and 2, so the shuffled
  column has a missing cell and \<^verbatim>\<open>predict\<close> raises inside the loop. The second is a
  classification selector whose estimator has no \<^verbatim>\<open>predict_proba\<close>: the training and
  \<^verbatim>\<open>predict\<close> of line 123 pass, and \<^verbatim>\<open>predict_proba\<close> raises inside the loop. In both, line
  145 has created the dictionary, and \<^verbatim>\<open>transform\<close> returns a frame.
\<close>

theorem transform_after_failed_fit_counterexample:
  "init (PyBool True) (Some (PyBool True)) (Some 0) NoVariables (Some strict_estimator) None
     = Inr (self strict_state) \<and>
   fst (fit small_libraries (DataFrameRef 0) [10, 20] strict_state)
     = Some (ValueError ''Input contains NaN'') \<and>
   strict_after_fit = snd (fit small_libraries (DataFrameRef 0) [10, 20] strict_state) \<and>
   fst (transform (DataFrameRef 0) strict_after_fit) = Inr 4 \<and>
   fst (transform (DataFrameRef 0) strict_after_fit) \<noteq> Inl NotFittedError \<and>
   init (PyBool False) (Some (PyBool True)) (Some 0) NoVariables (Some regressor_estimator) None
     = Inr (self classifier_state) \<and>
   fst (fit small_libraries (DataFrameRef 0) [10, 20] classifier_state)
     = Some (AttributeError ''predict_proba'') \<and>
   classifier_after_fit = snd (fit small_libraries (DataFrameRef 0) [10, 20] classifier_state) \<and>
   fst (transform (DataFrameRef 0) classifier_after_fit) = Inr 4 \<and>
   fst (transform (DataFrameRef 0) classifier_after_fit) \<noteq> Inl NotFittedError"
  using strict_state_constructed strict_fit_raises strict_transform_returns
    classifier_state_constructed classifier_fit_raises classifier_transform_returns
  by (simp add: strict_after_fit_def classifier_after_fit_def)

subsection \<open>fit on a valid frame\<close>

text \<open>
  Claim C7 at the frame whose row labels are 1 and 2. \<^verbatim>\<open>X\<close> is a dataframe, no feature
  is named (so that all columns are resolved), and the estimator
  of the caller trains and predicts on \<^verbatim>\<open>X\<close>; with the row labels 0 and 1 \<^verbatim>\<open>fit\<close> returns.
  With the row labels 1 and 2 the shuffled copy has a missing cell, \<^verbatim>\<open>predict\<close> raises on
  it, and so does \<^verbatim>\<open>fit\<close>.
\<close>

theorem fit_raises_on_shifted_row_labels:
  "fst (fit small_libraries (DataFrameRef 0) [10, 20] strict_state01) = None \<and>
   columns (heap strict_state 0) = columns (heap strict_state01 0) \<and>
   self strict_state = self strict_state01 \<and>
   index (heap strict_state01 0) = [IntLabel 0, IntLabel 1] \<and>
   index (heap strict_state 0) = [IntLabel 1, IntLabel 2] \<and>
   fst (fit small_libraries (DataFrameRef 0) [10, 20] strict_state)
     = Some (ValueError ''Input contains NaN'')"
proof -
  have "fst (fit small_libraries (DataFrameRef 0) [10, 20] strict_state01) = None"
    by code_simp
  moreover have "columns (heap strict_state 0) = columns (heap strict_state01 0)"
    "self strict_state = self strict_state01"
    "index (heap strict_state01 0) = [IntLabel 0, IntLabel 1]"
    "index (heap strict_state 0) = [IntLabel 1, IntLabel 2]"
    by (simp_all add: strict_state_def strict_state01_def state_with_def frame01_def frame12_def)
  ultimately show ?thesis using strict_fit_raises by simp
qed

subsection \<open>Repeated calls of fit\<close>






subsection \<open>The arguments scoring and cv\<close>

text \<open>
  Claim C9. \<^verbatim>\<open>scoring\<close> and the value of \<^verbatim>\<open>cv\<close> have no effect. Two constructions that
  differ in them only give selectors that differ in these two attributes only; and from
  two states that differ in these two attributes only, \<^verbatim>\<open>fit\<close> and \<^verbatim>\<open>transform\<close> raise or
  return alike and leave states that again differ in these two attributes only, so the
  drifts and the frames are the same.
\<close>

theorem scoring_and_cv_have_no_effect:
  "fit L X y (with_scoring_cv sc c \<sigma>) =
     (fst (fit L X y \<sigma>), with_scoring_cv sc c (snd (fit L X y \<sigma>))) \<and>
   transform X (with_scoring_cv sc c \<sigma>) =
     (fst (transform X \<sigma>), with_scoring_cv sc c (snd (transform X \<sigma>))) \<and>
   features_performance_drifts (self (snd (fit L X y (with_scoring_cv sc c \<sigma>)))) =
     features_performance_drifts (self (snd (fit L X y \<sigma>))) \<and>
   heap (snd (transform X (with_scoring_cv sc c \<sigma>))) = heap (snd (transform X \<sigma>)) \<and>
   (init r (Some (PyBool c1)) t f e (Some sc1) = Inr s1 \<longrightarrow>
      init r (Some (PyBool c2)) t f e (Some sc2) = Inr (s1\<lparr>scoring := sc2, cv := c2\<rparr>))"
proof -
  have "init r (Some (PyBool c1)) t f e (Some sc1) = Inr s1 \<longrightarrow>
      init r (Some (PyBool c2)) t f e (Some sc2) = Inr (s1\<lparr>scoring := sc2, cv := c2\<rparr>)"
    by (auto simp: init_def Let_def split: if_splits)
  then show ?thesis
    by (simp add: fit_scoring_cv transform_scoring_cv)
qed

theorem scoring_and_cv_have_no_effect_witness:
  "init (PyBool True) (Some (PyBool True)) (Some 0) NoVariables None (Some ''neg_mean_squared_error'')
     = Inr (self small_state) \<and>
   init (PyBool True) (Some (PyBool False)) (Some 0) NoVariables None (Some ''r2'')
     = Inr (self (with_scoring_cv ''r2'' False small_state)) \<and>
   features_performance_drifts
     (self (snd (fit small_libraries (DataFrameRef 0) [10, 20]
                   (with_scoring_cv ''r2'' False small_state)))) =
     Some [(''a'', - 200), (''b'', 0)]"
proof -
  have i: "init (PyBool True) (Some (PyBool True)) (Some 0) NoVariables None
             (Some ''neg_mean_squared_error'') = Inr (self small_state)"
    by (simp add: init_def small_state_def state_with_def small_selector_def)
  from scoring_and_cv_have_no_effect [of small_libraries "DataFrameRef 0" "[10, 20]" "''r2''" False
      small_state "PyBool True" True "Some 0" NoVariables None "''neg_mean_squared_error''"
      "self small_state" False "''r2''"] i small_fitted_drifts
  show ?thesis by (simp add: small_fitted_def)
qed

subsection \<open>The frames of the caller\<close>

text \<open>
  Claim C10. Neither \<^verbatim>\<open>fit\<close> nor \<^verbatim>\<open>transform\<close> changes a dataframe that exists when it is
  called, the argument \<^verbatim>\<open>X\<close> among them: \<^verbatim>\<open>fit\<close> writes to the copies it makes, and the frame
  that \<^verbatim>\<open>transform\<close> returns is a new object.
\<close>

theorem fit_and_transform_leave_frames:
  assumes "a < next_addr \<sigma>"
  shows "heap (snd (fit L X y \<sigma>)) a = heap \<sigma> a \<and>
         heap (snd (transform X \<sigma>)) a = heap \<sigma> a \<and>
         (\<forall>b. fst (transform X \<sigma>) = Inr b \<longrightarrow> next_addr \<sigma> \<le> b)"
  using assms fit_frame [of L X y \<sigma> "fst (fit L X y \<sigma>)" "snd (fit L X y \<sigma>)"]
    transform_frame [of X \<sigma> "fst (transform X \<sigma>)" "snd (transform X \<sigma>)"]
  by auto

theorem fit_and_transform_leave_frames_witness:
  "(0::nat) < next_addr small_state \<and>
   heap (snd (fit small_libraries (DataFrameRef 0) [10, 20] small_state)) 0 = frame01 \<and>
   heap (snd (transform (DataFrameRef 0) small_fitted)) 0 = frame01 \<and>
   fst (transform (DataFrameRef 0) small_fitted) = Inr 5 \<and> next_addr small_fitted = 4"
proof -
  have n: "(0::nat) < next_addr small_state" "heap small_state 0 = frame01"
    by (simp_all add: small_state_def state_with_def)
  from fit_and_transform_leave_frames [OF n(1), of small_libraries "DataFrameRef 0" "[10, 20]"]
  have f: "heap small_fitted 0 = frame01" by (simp add: n small_fitted_def)
  have "0 < next_addr small_fitted"
    using fit_frame [of small_libraries "DataFrameRef 0" "[10, 20]" small_state _ small_fitted] n
    by (simp add: small_fitted_def prod_eq_iff)
  from fit_and_transform_leave_frames [OF this, of _ "DataFrameRef 0"] f n
    small_fitted_transform
  show ?thesis by (simp add: small_fitted_def)
qed

end
